theory Spec2Isabelle
  imports Main "HOL-Library.Sublist"
begin

section \<open>Storage: values, rows and tables\<close>

text \<open>
  The handlers of \<^verbatim>\<open>apps/materials/views.py\<close> work on three tables through SQLAlchemy
  expressions. A row of the \<^verbatim>\<open>Material\<close> table is read by column name, as the source
  does (\<^verbatim>\<open>Material.c.is_open\<close>, \<^verbatim>\<open>material.owner\<close>, \<^verbatim>\<open>material.file\<close>): it is a map
  from column names to values, and a column that holds SQL \<^verbatim>\<open>NULL\<close> is absent from
  the map. The two junction tables have two columns each.

  The same values fill \<^verbatim>\<open>serializer.validated_data\<close>, which also holds an uploaded file
  (\<open>FileV filename content\<close>: its \<^verbatim>\<open>.filename\<close> and the bytes of its \<^verbatim>\<open>.file\<close>) and the
  validated \<^verbatim>\<open>categories\<close> list (\<open>CategoriesV\<close>: the \<^verbatim>\<open>category['category'].id\<close> of its
  elements, in order).
\<close>

datatype val =
    IntV int
  | StrV string
  | BoolV bool
  | FileV string string
  | CategoriesV "int list"

type_synonym row = "string \<rightharpoonup> val"

record material_category =
  mc_material :: int
  mc_category :: int

record material_user =
  mu_material :: int
  mu_user :: int

text \<open>
  \<^verbatim>\<open>disk\<close> is the media directory (path to content) that \<^verbatim>\<open>open(..., 'wb')\<close> and
  \<^verbatim>\<open>os.remove\<close> act on; \<^verbatim>\<open>last_id\<close> is the auto-increment counter of the
  \<^verbatim>\<open>Material\<close> table, from which \<^verbatim>\<open>insert.lastrowid\<close> is taken.
\<close>

record db =
  Material :: "row list"
  MaterialCategory :: "material_category list"
  MaterialUser :: "material_user list"
  last_id :: int
  disk :: "string \<rightharpoonup> string"


section \<open>Exceptions and responses\<close>

datatype arg = IntArg int | StrArg string

text \<open>A Python exception object: \<^verbatim>\<open>e.__class__.__name__\<close> and \<^verbatim>\<open>e.args\<close>.\<close>

datatype exc = Exc (cls: string) (args: "arg list")

text \<open>
  What a handler raises: the two exceptions of \<^verbatim>\<open>utils.exceptions\<close> that the source
  raises by name (\<^verbatim>\<open>ValidationError\<close> carries its dict, in key order), or any other
  exception, which no handler of the source catches.
\<close>

datatype error =
    ValidationError "(string \<times> string) list"
  | PermissionDenied
  | Raised exc

datatype body =
    NoBody
  | Rows "row list"
  | ExceptionDetail string "arg list"

text \<open>\<^verbatim>\<open>web.Response(status=...)\<close> and \<^verbatim>\<open>web.json_response(data, status=...)\<close>; the status
  of both defaults to 200.\<close>

datatype response = Response (status: int) (payload: body)


section \<open>Column expressions\<close>

text \<open>
  The SQLAlchemy expressions the source builds: \<^verbatim>\<open>column == value\<close>,
  \<^verbatim>\<open>column.like(pattern)\<close>, \<^verbatim>\<open>a & b\<close>, \<^verbatim>\<open>a | b\<close>. SQLAlchemy coerces a Python
  \<^verbatim>\<open>None\<close> operand of \<^verbatim>\<open>&\<close> and \<^verbatim>\<open>|\<close> to the SQL constant \<^verbatim>\<open>NULL\<close>.
\<close>

datatype clause =
    Eq string val
  | Like string string
  | And clause clause
  | Or clause clause
  | Null

text \<open>The right operand of \<^verbatim>\<open>&\<close> and \<^verbatim>\<open>|\<close>, which may be \<^verbatim>\<open>None\<close>.\<close>

definition coerce :: "clause option \<Rightarrow> clause" where
  "coerce y = (case y of None \<Rightarrow> Null | Some e \<Rightarrow> e)"

text \<open>SQL's three-valued connectives: \<^verbatim>\<open>None\<close> is \<^verbatim>\<open>NULL\<close> (unknown).\<close>

fun sql_and :: "bool option \<Rightarrow> bool option \<Rightarrow> bool option" where
  "sql_and (Some False) _ = Some False"
| "sql_and _ (Some False) = Some False"
| "sql_and (Some True) (Some True) = Some True"
| "sql_and _ _ = None"

fun sql_or :: "bool option \<Rightarrow> bool option \<Rightarrow> bool option" where
  "sql_or (Some True) _ = Some True"
| "sql_or _ (Some True) = Some True"
| "sql_or (Some False) (Some False) = Some False"
| "sql_or _ _ = None"

text \<open>
  The value of an expression on a row. How \<^verbatim>\<open>LIKE\<close> matches a pattern against a
  stored value (wildcards, collation) belongs to the storage layer: it is the parameter
  \<open>lk\<close>.
\<close>

fun eval :: "(string \<Rightarrow> val \<Rightarrow> bool) \<Rightarrow> clause \<Rightarrow> row \<Rightarrow> bool option" where
  "eval lk (Eq c v) r = (case r c of None \<Rightarrow> None | Some x \<Rightarrow> Some (x = v))"
| "eval lk (Like c p) r = (case r c of None \<Rightarrow> None | Some x \<Rightarrow> Some (lk p x))"
| "eval lk (And a b) r = sql_and (eval lk a r) (eval lk b r)"
| "eval lk (Or a b) r = sql_or (eval lk a r) (eval lk b r)"
| "eval lk Null r = None"

text \<open>\<^verbatim>\<open>WHERE\<close> keeps the rows on which the expression is true (neither false nor
  \<^verbatim>\<open>NULL\<close>).\<close>

definition matches :: "(string \<Rightarrow> val \<Rightarrow> bool) \<Rightarrow> clause \<Rightarrow> row \<Rightarrow> bool" where
  "matches lk q r = (eval lk q r = Some True)"

definition select_where :: "(string \<Rightarrow> val \<Rightarrow> bool) \<Rightarrow> clause \<Rightarrow> row list \<Rightarrow> row list" where
  "select_where lk q rows = filter (matches lk q) rows"

text \<open>
  Modelled from the spec: \<^verbatim>\<open>ListView.build_query('select', queryset=...)\<close> of
  \<^verbatim>\<open>utils/views.py\<close>, which is not among the sources. The spec calls a \<^verbatim>\<open>None\<close>
  queryset the sentinel ``match all'': the select then has no \<^verbatim>\<open>WHERE\<close>.
\<close>

definition build_query_select :: "(string \<Rightarrow> val \<Rightarrow> bool) \<Rightarrow> clause option \<Rightarrow> row list \<Rightarrow> row list" where
  "build_query_select lk queryset rows =
     (case queryset of None \<Rightarrow> rows | Some q \<Rightarrow> select_where lk q rows)"


section \<open>Requests\<close>

text \<open>
  A value of the query string, with the two readings the source makes of it:
  \<open>as_int\<close> is what Python's \<^verbatim>\<open>int()\<close> returns for the string (\<open>None\<close> when it raises
  \<^verbatim>\<open>ValueError\<close>), and \<open>as_column\<close> is the number the storage compares an integer
  column with when it is given the string. The source passes the string itself to the
  storage (\<^verbatim>\<open>MaterialUser.c.user == owner\<close>, \<^verbatim>\<open>MaterialCategory.c.category == category\<close>),
  so the two readings are independent: for \<^verbatim>\<open>1_0\<close>, \<^verbatim>\<open>int()\<close> returns 10 and MySQL
  reads 1.
\<close>

record qvalue =
  raw :: string
  as_int :: "int option"
  as_column :: int

record user =
  user_id :: int
  user_role :: int

text \<open>
  \<^verbatim>\<open>request.query.get('owner')\<close>, \<^verbatim>\<open>request.query.getall('category', None)\<close>,
  \<^verbatim>\<open>request.query.getall('type', None)\<close>, \<^verbatim>\<open>request.query.get('text')\<close>,
  \<^verbatim>\<open>request['user']\<close> and \<^verbatim>\<open>request.match_info['pk']\<close> (digits only, by the route).
  The path parameter is inserted and compared as it is: \<open>match_pk\<close> is the number the
  storage reads from it.
  \<^verbatim>\<open>multipart_data\<close> is what \<^verbatim>\<open>get_multipart_data(request)\<close> returns: the parts of the
  body by name, a text part or a file part (file name and content).
\<close>

datatype part = Text string | FilePart string string

record request =
  query_owner :: "qvalue option"
  query_category :: "qvalue list option"
  query_type :: "string list option"
  query_text :: "string option"
  req_user :: user
  match_pk :: int
  can_read_body :: bool
  multipart_data :: "string \<rightharpoonup> part"

definition py_int :: "qvalue \<Rightarrow> error + int" where
  "py_int v = (case as_int v of Some n \<Rightarrow> Inr n
     | None \<Rightarrow> Inl (Raised (Exc ''ValueError'' [StrArg (raw v)])))"


section \<open>The predicate builder: \<^verbatim>\<open>get_queryset_by_user\<close>\<close>

text \<open>
  The accumulator idiom of the source,
  \<^verbatim>\<open>if acc is not None: acc |= y  else: acc = y\<close>, and the same with \<^verbatim>\<open>&=\<close>.
\<close>

definition or_into :: "clause option \<Rightarrow> clause option \<Rightarrow> clause option" where
  "or_into acc y = (case acc of Some a \<Rightarrow> Some (Or a (coerce y)) | None \<Rightarrow> y)"

definition and_into :: "clause option \<Rightarrow> clause option \<Rightarrow> clause option" where
  "and_into acc y = (case acc of Some a \<Rightarrow> Some (And a (coerce y)) | None \<Rightarrow> y)"

text \<open>The \<^verbatim>\<open>async for\<close> loops over junction rows: one \<^verbatim>\<open>Material.c.id == ...\<close> per row,
  in row order.\<close>

fun id_loop :: "int list \<Rightarrow> clause option \<Rightarrow> clause option" where
  "id_loop [] materials = materials"
| "id_loop (m # ms) materials = id_loop ms (or_into materials (Some (Eq ''id'' (IntV m))))"

definition category_rows :: "db \<Rightarrow> int \<Rightarrow> int list" where
  "category_rows d c = map mc_material (filter (\<lambda>mc. mc_category mc = c) (MaterialCategory d))"

definition user_rows :: "db \<Rightarrow> int \<Rightarrow> int list" where
  "user_rows d u = map mu_material (filter (\<lambda>mu. mu_user mu = u) (MaterialUser d))"

fun category_loop :: "db \<Rightarrow> qvalue list \<Rightarrow> clause option \<Rightarrow> clause option" where
  "category_loop d [] category_queryset = category_queryset"
| "category_loop d (category # categories) category_queryset =
     category_loop d categories
       (or_into category_queryset (id_loop (category_rows d (as_column category)) None))"

fun type_loop :: "string list \<Rightarrow> clause option \<Rightarrow> clause option" where
  "type_loop [] type_queryset = type_queryset"
| "type_loop (t # ts) type_queryset =
     type_loop ts (or_into type_queryset (Some (Eq ''type'' (StrV t))))"

definition visibility :: clause where
  "visibility = And (Eq ''is_open'' (BoolV True)) (Eq ''deleted'' (BoolV False))"

text \<open>
  The owner is read twice: \<^verbatim>\<open>int(owner)\<close> decides on the visibility floor (and raises
  \<^verbatim>\<open>ValueError\<close> first of all when the string is no integer), and the string itself goes
  to the storage for the collection lookup.
\<close>

definition get_queryset_by_user :: "request \<Rightarrow> db \<Rightarrow> error + clause option" where
  "get_queryset_by_user req d =
     (case (case query_owner req of None \<Rightarrow> Inr None
            | Some v \<Rightarrow> (case py_int v of Inl e \<Rightarrow> Inl e | Inr n \<Rightarrow> Inr (Some n))) of
        Inl e \<Rightarrow> Inl e
      | Inr int_owner \<Rightarrow>
          let queryset =
                (if query_owner req = None \<or> Some (user_id (req_user req)) \<noteq> int_owner
                 then Some visibility else None);
              queryset =
                (case query_category req of None \<Rightarrow> queryset
                 | Some categories \<Rightarrow> and_into queryset (category_loop d categories None));
              queryset =
                (case query_type req of None \<Rightarrow> queryset
                 | Some types \<Rightarrow> and_into queryset (type_loop types None));
              queryset =
                (case query_owner req of None \<Rightarrow> queryset
                 | Some owner \<Rightarrow>
                     and_into queryset (id_loop (user_rows d (as_column owner)) None))
          in Inr queryset)"


section \<open>Collaborators that are not among the sources\<close>

datatype json =
    JNull
  | JBool bool
  | JNum int
  | JStr string
  | JArr "json list"
  | JObj "(string \<times> json) list"

text \<open>The three inserts of the source, as the storage layer sees them.\<close>

datatype stmt =
    InsertMaterial row
  | InsertMaterialUser int int
  | InsertMaterialCategory int int

text \<open>
  The functions, settings and schema that the handlers use and that are defined outside
  \<^verbatim>\<open>apps/materials\<close>; every theorem holds for all of them.
  \<^item> \<open>json_loads\<close>: \<^verbatim>\<open>json.loads\<close>, \<open>None\<close> when it raises \<^verbatim>\<open>JSONDecodeError\<close>;
  \<^item> \<open>base_is_valid\<close>: \<^verbatim>\<open>ModelSerializer.is_valid(method, partial)\<close> of
    \<^verbatim>\<open>utils/serializers.py\<close>, on the request data and the parsed \<^verbatim>\<open>categories\<close>; it
    raises or leaves \<^verbatim>\<open>validated_data\<close>;
  \<^item> \<open>generate_path_to_file\<close>, \<open>generate_file_name\<close>: \<^verbatim>\<open>utils/media.py\<close>;
  \<^item> \<open>constraints\<close>: the checks of the schema (foreign keys, \<^verbatim>\<open>NOT NULL\<close>, ...) other
    than the uniqueness of \<^verbatim>\<open>MaterialUser\<close> pairs: the exception an insert raises, if any;
  \<^item> \<open>column_defaults\<close>: the column defaults of the \<^verbatim>\<open>Material\<close> table;
  \<^item> \<open>MEDIA_URL\<close>, \<open>MEDIA_ROOT\<close>, \<open>BASE_DIR\<close>, \<open>MODERATOR\<close>: \<^verbatim>\<open>project.settings\<close> and
    \<^verbatim>\<open>project.permissions\<close>;
  \<^item> \<open>now\<close>: year, month and day of \<^verbatim>\<open>datetime.now()\<close>;
  \<^item> \<open>PagePagination\<close>: the paginator of \<^verbatim>\<open>utils/pagination.py\<close> on a request, as far
    as \<^verbatim>\<open>check_next_page\<close> and \<^verbatim>\<open>paginate_query\<close> go: the exception they raise, or the
    offset and the limit they apply;
  \<^item> \<open>get_pagination_class\<close>: the paginator of the list view, which may be \<open>None\<close>;
  \<^item> \<open>to_json_many\<close>: \<^verbatim>\<open>MaterialSerializer(many=True).to_json\<close> on the rows of a result
    and \<^verbatim>\<open>get_paginated_data\<close> after it, which need the serialisers of
    \<^verbatim>\<open>utils/serializers.py\<close>: the exception they raise, if any. The document they build
    is a rendering of the rows; the model keeps the rows.
\<close>

record env =
  json_loads :: "string \<Rightarrow> json option"
  base_is_valid :: "string \<Rightarrow> bool \<Rightarrow> (string \<rightharpoonup> part) \<Rightarrow> json \<Rightarrow> error + row"
  generate_path_to_file :: "string \<Rightarrow> string option \<Rightarrow> nat \<Rightarrow> nat \<Rightarrow> nat \<Rightarrow> string"
  generate_file_name :: "string \<Rightarrow> string \<Rightarrow> string"
  constraints :: "db \<Rightarrow> stmt \<Rightarrow> exc option"
  column_defaults :: row
  MEDIA_URL :: string
  MEDIA_ROOT :: string
  BASE_DIR :: string
  MODERATOR :: int
  now :: "nat \<times> nat \<times> nat"
  PagePagination :: "request \<Rightarrow> error + nat \<times> nat"
  get_pagination_class :: "request \<Rightarrow> (error + nat \<times> nat) option"
  to_json_many :: "request \<Rightarrow> db \<Rightarrow> row list \<Rightarrow> error option"


section \<open>Listing and search: \<^verbatim>\<open>MaterialsView.get\<close> and \<^verbatim>\<open>search_materials\<close>\<close>

text \<open>
  Modelled from the spec: \<^verbatim>\<open>paginate_query\<close> of \<^verbatim>\<open>utils/pagination.py\<close>, which is not
  among the sources. The spec has the pagination component apply limit/offset semantics
  to the query.
\<close>

definition paginate_query :: "nat \<times> nat \<Rightarrow> row list \<Rightarrow> row list" where
  "paginate_query window rows = (case window of (offset, limit) \<Rightarrow> take limit (drop offset rows))"

text \<open>The end of both handlers: the page of the selected rows, serialised, with status
  200.\<close>

definition respond :: "env \<Rightarrow> request \<Rightarrow> db \<Rightarrow> row list \<Rightarrow> error + response" where
  "respond E req d result =
     (case to_json_many E req d result of
        Some e \<Rightarrow> Inl e
      | None \<Rightarrow> Inr (Response 200 (Rows result)))"

text \<open>
  \<^verbatim>\<open>MaterialsView.get\<close>: the queryset, the select, the paginator when there is one, the
  serialiser.
\<close>

definition MaterialsView_get :: "(string \<Rightarrow> val \<Rightarrow> bool) \<Rightarrow> env \<Rightarrow> request \<Rightarrow> db \<Rightarrow> error + response" where
  "MaterialsView_get lk E req d =
     (case get_queryset_by_user req d of
        Inl e \<Rightarrow> Inl e
      | Inr queryset \<Rightarrow>
          let query = build_query_select lk queryset (Material d)
          in case get_pagination_class E req of
               None \<Rightarrow> respond E req d query
             | Some (Inl e) \<Rightarrow> Inl e
             | Some (Inr window) \<Rightarrow> respond E req d (paginate_query window query))"

text \<open>
  \<^verbatim>\<open>search_materials\<close>: the text parameter is required; the pattern is
  \<^verbatim>\<open>'%{}%'.format(text)\<close>. When \<^verbatim>\<open>get_queryset_by_user\<close> returns \<^verbatim>\<open>None\<close>, the
  statement \<^verbatim>\<open>queryset &= ...\<close> has \<^verbatim>\<open>None\<close> on the left and raises \<^verbatim>\<open>TypeError\<close>.
\<close>

definition search_materials :: "(string \<Rightarrow> val \<Rightarrow> bool) \<Rightarrow> env \<Rightarrow> request \<Rightarrow> db \<Rightarrow> error + response" where
  "search_materials lk E req d =
     (case query_text req of
        None \<Rightarrow> Inl (ValidationError [(''text'', ''This query parameters is required'')])
      | Some text \<Rightarrow>
          (case get_queryset_by_user req d of
             Inl e \<Rightarrow> Inl e
           | Inr None \<Rightarrow> Inl (Raised (Exc ''TypeError'' []))
           | Inr (Some queryset) \<Rightarrow>
               let like = ''%'' @ text @ ''%'';
                   queryset = And queryset (Or (Like ''name'' like) (Like ''author'' like));
                   query = select_where lk queryset (Material d)
               in case PagePagination E req of
                    Inl e \<Rightarrow> Inl e
                  | Inr window \<Rightarrow> respond E req d (paginate_query window query)))"


section \<open>Python string helpers\<close>

text \<open>\<^verbatim>\<open>s.find(sub)\<close>: the lowest index at which \<open>sub\<close> starts in \<open>s\<close>; \<open>None\<close> is \<open>-1\<close>.\<close>

fun str_find :: "string \<Rightarrow> string \<Rightarrow> nat option" where
  "str_find [] sub = (if sub = [] then Some 0 else None)"
| "str_find (c # cs) sub =
     (if prefix sub (c # cs) then Some 0 else map_option Suc (str_find cs sub))"

text \<open>\<^verbatim>\<open>s.rfind('.')\<close>: the highest index of a dot; \<open>None\<close> is \<open>-1\<close>.\<close>

fun rfind_dot :: "string \<Rightarrow> nat option" where
  "rfind_dot [] = None"
| "rfind_dot (c # cs) =
     (case rfind_dot cs of Some i \<Rightarrow> Some (Suc i)
      | None \<Rightarrow> if c = CHR ''.'' then Some 0 else None)"

text \<open>\<^verbatim>\<open>s.upper()\<close> on ASCII letters; other bytes are kept.\<close>

definition upper_char :: "char \<Rightarrow> char" where
  "upper_char c =
     (if 97 \<le> (of_char c :: nat) \<and> (of_char c :: nat) \<le> 122
      then char_of ((of_char c :: nat) - 32) else c)"

definition upper :: "string \<Rightarrow> string" where
  "upper s = map upper_char s"

text \<open>\<^verbatim>\<open>filename[index+1:].upper()\<close> with \<^verbatim>\<open>index = filename.rfind('.')\<close>: without a dot,
  \<^verbatim>\<open>index + 1\<close> is 0 and the whole name is taken.\<close>

definition extension_of :: "string \<Rightarrow> string" where
  "extension_of filename =
     upper (case rfind_dot filename of None \<Rightarrow> filename | Some index \<Rightarrow> drop (index + 1) filename)"

text \<open>\<^verbatim>\<open>'{}'.format(n)\<close> for a non-negative integer.\<close>

definition digit_char :: "nat \<Rightarrow> char" where
  "digit_char n = char_of (48 + n)"

function str_nat :: "nat \<Rightarrow> string" where
  "str_nat n = (if n < 10 then [digit_char n] else str_nat (n div 10) @ [digit_char (n mod 10)])"
  by pat_completeness auto
termination
  by (relation "measure id") auto

declare str_nat.simps [simp del]


section \<open>Statements on the storage\<close>

text \<open>
  Modelled from the spec: the schema of \<^verbatim>\<open>apps/materials/models.py\<close>, which is not among
  the sources. The spec gives \<^verbatim>\<open>MaterialUser\<close> a uniqueness constraint on the pair; MySQL
  reports its violation as \<^verbatim>\<open>IntegrityError(1062, ...)\<close>, the code the source tests for.
\<close>

definition duplicate_entry :: exc where
  "duplicate_entry = Exc ''IntegrityError'' [IntArg 1062, StrArg ''Duplicate entry'']"

definition insert_material_user :: "env \<Rightarrow> db \<Rightarrow> int \<Rightarrow> int \<Rightarrow> exc + db" where
  "insert_material_user E d m u =
     (if \<lparr>mu_material = m, mu_user = u\<rparr> \<in> set (MaterialUser d) then Inl duplicate_entry
      else case constraints E d (InsertMaterialUser m u) of
             Some e \<Rightarrow> Inl e
           | None \<Rightarrow> Inr (d\<lparr>MaterialUser := MaterialUser d @ [\<lparr>mu_material = m, mu_user = u\<rparr>]\<rparr>))"

definition insert_material_category :: "env \<Rightarrow> db \<Rightarrow> int \<Rightarrow> int \<Rightarrow> exc + db" where
  "insert_material_category E d m c =
     (case constraints E d (InsertMaterialCategory m c) of
        Some e \<Rightarrow> Inl e
      | None \<Rightarrow>
          Inr (d\<lparr>MaterialCategory := MaterialCategory d @ [\<lparr>mc_material = m, mc_category = c\<rparr>]\<rparr>))"

text \<open>\<^verbatim>\<open>model.insert().values(**validated_data)\<close>: the storage fills the columns that are
  not given from their defaults and generates the id, which is \<^verbatim>\<open>insert.lastrowid\<close>.\<close>

definition insert_material :: "env \<Rightarrow> db \<Rightarrow> row \<Rightarrow> exc + int \<times> db" where
  "insert_material E d values =
     (let lastrowid = last_id d + 1;
          r = (column_defaults E ++ values)(''id'' \<mapsto> IntV lastrowid)
      in case constraints E d (InsertMaterial r) of
           Some e \<Rightarrow> Inl e
         | None \<Rightarrow> Inr (lastrowid, d\<lparr>Material := Material d @ [r], last_id := lastrowid\<rparr>))"

text \<open>\<^verbatim>\<open>trans.rollback()\<close>: the tables are as they were at \<^verbatim>\<open>conn.begin()\<close>; the
  auto-increment counter and the media directory are not part of the transaction.\<close>

definition rollback :: "db \<Rightarrow> db \<Rightarrow> db" where
  "rollback begin d =
     d\<lparr>Material := Material begin, MaterialCategory := MaterialCategory begin,
       MaterialUser := MaterialUser begin\<rparr>"


section \<open>The collection: add and remove\<close>

definition add_material_to_user_collection :: "env \<Rightarrow> request \<Rightarrow> db \<Rightarrow> (error + response) \<times> db" where
  "add_material_to_user_collection E req d =
     (let pk = match_pk req in
      case insert_material_user E d pk (user_id (req_user req)) of
        Inr d' \<Rightarrow> (Inr (Response 200 NoBody), d')
      | Inl e \<Rightarrow>
          if cls e = ''IntegrityError'' then
            (case args e of
               [] \<Rightarrow> (Inl (Raised (Exc ''IndexError'' [StrArg ''tuple index out of range''])), d)
             | a # _ \<Rightarrow>
                 if a = IntArg 1062
                 then (Inl (ValidationError [(''detail'', ''Material is already added'')]), d)
                 else (Inl (Raised e), d))
          else (Inl (Raised e), d))"

definition remove_material_from_user_collection :: "request \<Rightarrow> db \<Rightarrow> (error + response) \<times> db" where
  "remove_material_from_user_collection req d =
     (let pk = match_pk req in
      (Inr (Response 200 NoBody),
       d\<lparr>MaterialUser :=
           filter (\<lambda>mu. \<not> (mu_material mu = pk \<and> mu_user mu = user_id (req_user req)))
             (MaterialUser d)\<rparr>))"


section \<open>Soft delete: \<^verbatim>\<open>MaterialView.delete\<close>\<close>

text \<open>
  Modelled from the spec: \<^verbatim>\<open>DetailView.get_queryset\<close> and \<^verbatim>\<open>build_query('update', ...)\<close>
  of \<^verbatim>\<open>utils/views.py\<close>, which is not among the sources. The spec has the row fetched by
  id: the queryset is \<^verbatim>\<open>Material.c.id == pk\<close>, and the update sets the given values on
  the rows the queryset selects.
\<close>

definition get_queryset :: "request \<Rightarrow> clause" where
  "get_queryset req = Eq ''id'' (IntV (match_pk req))"

definition build_query_update :: "(string \<Rightarrow> val \<Rightarrow> bool) \<Rightarrow> string \<Rightarrow> val \<Rightarrow> clause \<Rightarrow> row list \<Rightarrow> row list" where
  "build_query_update lk column v queryset rows =
     map (\<lambda>r. if matches lk queryset r then r(column \<mapsto> v) else r) rows"

text \<open>
  \<^verbatim>\<open>result.fetchone()\<close> is the first selected row, or \<^verbatim>\<open>None\<close>, on which
  \<^verbatim>\<open>material.owner\<close> raises \<^verbatim>\<open>AttributeError\<close>; so does \<^verbatim>\<open>material.file.find\<close> when the
  file column is not a string. \<^verbatim>\<open>os.remove\<close> of a path that is not there raises
  \<^verbatim>\<open>FileNotFoundError\<close>, which the source passes over.
\<close>

definition fetchone :: "row list \<Rightarrow> row option" where
  "fetchone result = (case result of [] \<Rightarrow> None | r # _ \<Rightarrow> Some r)"

definition MaterialView_delete :: "(string \<Rightarrow> val \<Rightarrow> bool) \<Rightarrow> env \<Rightarrow> request \<Rightarrow> db \<Rightarrow> (error + response) \<times> db" where
  "MaterialView_delete lk E req d =
     (let queryset = get_queryset req;
          user = req_user req
      in case fetchone (select_where lk queryset (Material d)) of
           None \<Rightarrow> (Inl (Raised (Exc ''AttributeError'' [StrArg ''owner''])), d)
         | Some material \<Rightarrow>
             if material ''owner'' \<noteq> Some (IntV (user_id user)) \<and> user_role user < MODERATOR E
             then (Inl PermissionDenied, d)
             else
               let d = d\<lparr>Material := build_query_update lk ''deleted'' (BoolV True) queryset (Material d)\<rparr>;
                   d = d\<lparr>MaterialUser :=
                          filter (\<lambda>mu. \<not> (Some (IntV (mu_material mu)) = material ''id'' \<and>
                                          mu_user mu = user_id user))
                            (MaterialUser d)\<rparr>
               in case material ''file'' of
                    Some (StrV file) \<Rightarrow>
                      (case str_find file (MEDIA_URL E) of
                         None \<Rightarrow> (Inr (Response 204 NoBody), d)
                       | Some index \<Rightarrow>
                           let path = BASE_DIR E @ ''/'' @ drop index file
                           in (Inr (Response 204 NoBody), d\<lparr>disk := (disk d)(path := None)\<rparr>))
                  | _ \<Rightarrow> (Inl (Raised (Exc ''AttributeError'' [StrArg ''find''])), d))"


section \<open>The serialiser: \<^verbatim>\<open>MaterialSerializer.is_valid\<close>\<close>

definition MaterialSerializer_is_valid ::
    "env \<Rightarrow> request \<Rightarrow> string \<Rightarrow> bool \<Rightarrow> (string \<rightharpoonup> part) \<Rightarrow> json \<Rightarrow> error + row" where
  "MaterialSerializer_is_valid E req method partial data categories =
     (case base_is_valid E method partial data categories of
        Inl e \<Rightarrow> Inl e
      | Inr validated_data \<Rightarrow>
          Inr (validated_data(''owner'' \<mapsto> IntV (user_id (req_user req)))))"

text \<open>
  Modelled from the spec: \<^verbatim>\<open>Serializer.create_validate\<close> of \<^verbatim>\<open>utils/serializers.py\<close>,
  which is not among the sources. The spec's write path validates the input document
  and injects the owner: \<^verbatim>\<open>create_validate\<close> runs \<^verbatim>\<open>is_valid\<close> for the method
  \<^verbatim>\<open>create\<close>, not partial.
\<close>

definition create_validate :: "env \<Rightarrow> request \<Rightarrow> (string \<rightharpoonup> part) \<Rightarrow> json \<Rightarrow> error + row" where
  "create_validate E req data categories =
     MaterialSerializer_is_valid E req ''create'' False data categories"


section \<open>Creation: \<^verbatim>\<open>MaterialsView.multipart_post\<close>\<close>

text \<open>
  \<^verbatim>\<open>data['categories'] = json.loads(data['categories']) if data['categories'] else []\<close>
  inside \<^verbatim>\<open>try ... except JSONDecodeError\<close>. The condition reads the key first: a
  missing key raises \<^verbatim>\<open>KeyError\<close>, which the \<^verbatim>\<open>except\<close> clause does not catch. A text
  part is true when it is not empty; a file part is true, and \<^verbatim>\<open>json.loads\<close> raises
  \<^verbatim>\<open>TypeError\<close> on it. The result is the new value of \<^verbatim>\<open>data['categories']\<close>.
\<close>

definition loads_categories :: "env \<Rightarrow> (string \<rightharpoonup> part) \<Rightarrow> error + json" where
  "loads_categories E data =
     (case data ''categories'' of
        None \<Rightarrow> Inl (Raised (Exc ''KeyError'' [StrArg ''categories'']))
      | Some (Text s) \<Rightarrow>
          if s \<noteq> [] then
            (case json_loads E s of
               None \<Rightarrow> Inl (ValidationError [(''categories'', ''JSON decode error'')])
             | Some j \<Rightarrow> Inr j)
          else Inr (JArr [])
      | Some (FilePart name content) \<Rightarrow> Inl (Raised (Exc ''TypeError'' [StrArg ''json.loads''])))"

text \<open>\<^verbatim>\<open>serializer.file_fields\<close>: \<^verbatim>\<open>MaterialSerializer\<close> declares one \<^verbatim>\<open>FileField\<close>,
  \<^verbatim>\<open>file\<close>, with \<^verbatim>\<open>upload_to='materials'\<close>.\<close>

definition file_fields :: "(string \<times> string option) list" where
  "file_fields = [(''file'', Some ''materials'')]"

text \<open>
  The loop over the file fields: the upload is written under the generated path and
  name, the field becomes the URL and \<^verbatim>\<open>extension\<close> is derived from the stored name.
  The chunked copy (\<^verbatim>\<open>readline(CHUNK_SIZE)\<close> until an empty chunk) writes the whole
  content.
\<close>

fun save_files :: "env \<Rightarrow> (string \<times> string option) list \<Rightarrow> row \<Rightarrow> db \<Rightarrow> (error + row) \<times> db" where
  "save_files E [] validated_data d = (Inr validated_data, d)"
| "save_files E ((file_name, upload_to) # files) validated_data d =
     (case now E of (y, m, dd) \<Rightarrow>
        let path = generate_path_to_file E (MEDIA_ROOT E) upload_to y m dd
        in case validated_data file_name of
             None \<Rightarrow> (Inl (Raised (Exc ''KeyError'' [StrArg file_name])), d)
           | Some (FileV name content) \<Rightarrow>
               let filename = generate_file_name E path name;
                   d = d\<lparr>disk := (disk d)(path @ ''/'' @ filename \<mapsto> content)\<rparr>;
                   url = ''/'' @ MEDIA_URL E @ ''/''
                         @ (case upload_to of Some u \<Rightarrow> u @ ''/'' | None \<Rightarrow> [])
                         @ str_nat y @ ''/'' @ str_nat m @ ''/'' @ str_nat dd @ ''/'' @ filename;
                   validated_data = validated_data(file_name \<mapsto> StrV url);
                   validated_data = validated_data(''extension'' \<mapsto> StrV (extension_of filename))
               in save_files E files validated_data d
           | Some _ \<Rightarrow> (Inl (Raised (Exc ''AttributeError'' [StrArg ''filename''])), d))"

text \<open>\<^verbatim>\<open>for category in categories\<close>: a validated list gives its ids; an empty string
  gives no iteration; anything else raises \<^verbatim>\<open>TypeError\<close> before any category insert.\<close>

definition iterate_categories :: "val \<Rightarrow> exc + int list" where
  "iterate_categories v =
     (case v of
        CategoriesV cs \<Rightarrow> Inr cs
      | StrV s \<Rightarrow> if s = [] then Inr [] else Inl (Exc ''TypeError'' [StrArg ''categories''])
      | _ \<Rightarrow> Inl (Exc ''TypeError'' [StrArg ''categories'']))"

fun insert_categories :: "env \<Rightarrow> int \<Rightarrow> int list \<Rightarrow> db \<Rightarrow> exc \<times> db + db" where
  "insert_categories E lastrowid [] d = Inr d"
| "insert_categories E lastrowid (category # categories) d =
     (case insert_material_category E d lastrowid category of
        Inl e \<Rightarrow> Inl (e, d)
      | Inr d' \<Rightarrow> insert_categories E lastrowid categories d')"

text \<open>
  The body of the \<^verbatim>\<open>try\<close>: \<^verbatim>\<open>validated_data.pop('categories')\<close>, the insert of the
  material, of the link to the requesting user, and of one link per category. The first
  exception ends it; \<open>Inl (e, d)\<close> is the exception with the storage as the statements
  before it left it.
\<close>

definition transaction :: "env \<Rightarrow> request \<Rightarrow> row \<Rightarrow> db \<Rightarrow> exc \<times> db + int \<times> db" where
  "transaction E req validated_data d =
     (case validated_data ''categories'' of
        None \<Rightarrow> Inl (Exc ''KeyError'' [StrArg ''categories''], d)
      | Some categories \<Rightarrow>
          (case insert_material E d (validated_data(''categories'' := None)) of
             Inl e \<Rightarrow> Inl (e, d)
           | Inr (lastrowid, d1) \<Rightarrow>
               (case insert_material_user E d1 lastrowid (user_id (req_user req)) of
                  Inl e \<Rightarrow> Inl (e, d1)
                | Inr d2 \<Rightarrow>
                    (case iterate_categories categories of
                       Inl e \<Rightarrow> Inl (e, d2)
                     | Inr cs \<Rightarrow>
                         (case insert_categories E lastrowid cs d2 of
                            Inl x \<Rightarrow> Inl x
                          | Inr d3 \<Rightarrow> Inr (lastrowid, d3))))))"

text \<open>
  Lines 46 to 78 of the handler: the request data, the \<^verbatim>\<open>categories\<close> sub-payload,
  validation and the file fields.
\<close>

definition prepare :: "env \<Rightarrow> request \<Rightarrow> db \<Rightarrow> (error + row) \<times> db" where
  "prepare E req d =
     (let data = (if can_read_body req then multipart_data req else Map.empty)
      in case loads_categories E data of
           Inl e \<Rightarrow> (Inl e, d)
         | Inr categories \<Rightarrow>
             (case create_validate E req data categories of
                Inl e \<Rightarrow> (Inl e, d)
              | Inr validated_data \<Rightarrow> save_files E file_fields validated_data d))"

text \<open>
  The handler: \<^verbatim>\<open>conn.begin()\<close>, the \<^verbatim>\<open>try\<close> body, then \<^verbatim>\<open>rollback\<close> and the
  \<^verbatim>\<open>{exception, detail}\<close> response (status 200, the default) on any exception, or
  \<^verbatim>\<open>commit\<close> and the new row with status 201.
\<close>

definition multipart_post :: "(string \<Rightarrow> val \<Rightarrow> bool) \<Rightarrow> env \<Rightarrow> request \<Rightarrow> db \<Rightarrow> (error + response) \<times> db" where
  "multipart_post lk E req d =
     (case prepare E req d of
        (Inl e, d) \<Rightarrow> (Inl e, d)
      | (Inr validated_data, d) \<Rightarrow>
          (case transaction E req validated_data d of
             Inl (e, d') \<Rightarrow>
               (Inr (Response 200 (ExceptionDetail (cls e) (args e))), rollback d d')
           | Inr (lastrowid, d') \<Rightarrow>
               (Inr (Response 201
                  (Rows (build_query_select lk (Some (Eq ''id'' (IntV lastrowid))) (Material d')))),
                d')))"


section \<open>Notions used in the statements\<close>



text \<open>The rows a queryset selects, \<^verbatim>\<open>None\<close> selecting every row.\<close>

definition selects :: "(string \<Rightarrow> val \<Rightarrow> bool) \<Rightarrow> clause option \<Rightarrow> row \<Rightarrow> bool" where
  "selects lk queryset r = (case queryset of None \<Rightarrow> True | Some q \<Rightarrow> matches lk q r)"

text \<open>
  The composition rule in the words of the spec: a row must satisfy every supplied
  dimension, a dimension with several values is satisfied by any of them, an absent
  dimension asks nothing, and the visibility floor applies unless the owner parameter is
  the requesting user.
\<close>

definition visible :: "row \<Rightarrow> bool" where
  "visible r = (r ''is_open'' = Some (BoolV True) \<and> r ''deleted'' = Some (BoolV False))"

definition in_category :: "db \<Rightarrow> qvalue list \<Rightarrow> row \<Rightarrow> bool" where
  "in_category d cs r =
     (\<exists>c\<in>set cs. \<exists>m\<in>set (category_rows d (as_column c)). r ''id'' = Some (IntV m))"

definition has_type :: "string list \<Rightarrow> row \<Rightarrow> bool" where
  "has_type ts r = (\<exists>t\<in>set ts. r ''type'' = Some (StrV t))"

definition in_collection :: "db \<Rightarrow> int \<Rightarrow> row \<Rightarrow> bool" where
  "in_collection d n r = (\<exists>m\<in>set (user_rows d n). r ''id'' = Some (IntV m))"

definition floor_applies :: "request \<Rightarrow> bool" where
  "floor_applies req =
     (case query_owner req of None \<Rightarrow> True
      | Some owner \<Rightarrow> as_int owner \<noteq> Some (user_id (req_user req)))"

definition spec_predicate :: "request \<Rightarrow> db \<Rightarrow> row \<Rightarrow> bool" where
  "spec_predicate req d r =
     ((if floor_applies req then visible r else True) \<and>
      (case query_category req of None \<Rightarrow> True | Some cs \<Rightarrow> in_category d cs r) \<and>
      (case query_type req of None \<Rightarrow> True | Some ts \<Rightarrow> has_type ts r) \<and>
      (case query_owner req of None \<Rightarrow> True
       | Some owner \<Rightarrow> in_collection d (as_column owner) r))"

text \<open>Every supplied dimension has at least one value with at least one candidate row.\<close>

definition dimensions_nonempty :: "request \<Rightarrow> db \<Rightarrow> bool" where
  "dimensions_nonempty req d =
     ((case query_category req of None \<Rightarrow> True
       | Some cs \<Rightarrow> \<exists>c\<in>set cs. category_rows d (as_column c) \<noteq> []) \<and>
      (case query_type req of None \<Rightarrow> True | Some ts \<Rightarrow> ts \<noteq> []) \<and>
      (case query_owner req of None \<Rightarrow> True
       | Some owner \<Rightarrow> user_rows d (as_column owner) \<noteq> []))"

text \<open>The three steps of \<^verbatim>\<open>get_queryset_by_user\<close> after the owner test, one per
  dimension.\<close>

definition category_step :: "request \<Rightarrow> db \<Rightarrow> clause option \<Rightarrow> clause option" where
  "category_step req d queryset =
     (case query_category req of None \<Rightarrow> queryset
      | Some categories \<Rightarrow> and_into queryset (category_loop d categories None))"

definition type_step :: "request \<Rightarrow> clause option \<Rightarrow> clause option" where
  "type_step req queryset =
     (case query_type req of None \<Rightarrow> queryset
      | Some types \<Rightarrow> and_into queryset (type_loop types None))"

definition owner_step :: "request \<Rightarrow> db \<Rightarrow> clause option \<Rightarrow> clause option" where
  "owner_step req d queryset =
     (case query_owner req of None \<Rightarrow> queryset
      | Some owner \<Rightarrow> and_into queryset (id_loop (user_rows d (as_column owner)) None))"

text \<open>The storage error with MySQL code 1062, as the handler of the collection tests it.\<close>

definition is_duplicate_entry :: "exc \<Rightarrow> bool" where
  "is_duplicate_entry e =
     (cls e = ''IntegrityError'' \<and> (case args e of [] \<Rightarrow> False | a # _ \<Rightarrow> a = IntArg 1062))"

text \<open>The response of a successful creation.\<close>

definition created :: "error + response \<Rightarrow> bool" where
  "created x = (case x of Inr (Response s b) \<Rightarrow> s = 201 | Inl e \<Rightarrow> False)"

text \<open>A query-string value in canonical decimal form, which both readings agree on.\<close>

definition canonical :: "string \<Rightarrow> int \<Rightarrow> qvalue" where
  "canonical s n = \<lparr>raw = s, as_int = Some n, as_column = n\<rparr>"

text \<open>The pair of a collection link.\<close>

definition link :: "int \<Rightarrow> int \<Rightarrow> material_user" where
  "link m u = \<lparr>mu_material = m, mu_user = u\<rparr>"

definition category_link :: "int \<Rightarrow> int \<Rightarrow> material_category" where
  "category_link m c = \<lparr>mc_material = m, mc_category = c\<rparr>"


section \<open>A small installation, for the examples\<close>

text \<open>A \<^verbatim>\<open>LIKE\<close> with the wildcards \<^verbatim>\<open>%\<close> and \<^verbatim>\<open>_\<close>, on strings, case-sensitive.\<close>

fun like_match :: "string \<Rightarrow> string \<Rightarrow> bool" where
  "like_match [] s = (s = [])"
| "like_match (p # ps) [] = (p = CHR ''%'' \<and> like_match ps [])"
| "like_match (p # ps) (c # cs) =
     (if p = CHR ''%'' then like_match ps (c # cs) \<or> like_match (p # ps) cs
      else (p = CHR ''_'' \<or> p = c) \<and> like_match ps cs)"

definition like_val :: "string \<Rightarrow> val \<Rightarrow> bool" where
  "like_val p v = (case v of StrV s \<Rightarrow> like_match p s | _ \<Rightarrow> False)"

text \<open>User 1 owns material 10, which is not open; user 2, a moderator, owns material 11,
  which is open. Both have material 10 in their collection. No material has a category.\<close>

definition example_material :: row where
  "example_material =
     [''id'' \<mapsto> IntV 10, ''name'' \<mapsto> StrV ''notes'', ''author'' \<mapsto> StrV ''ann'',
      ''type'' \<mapsto> StrV ''pdf'', ''file'' \<mapsto> StrV ''/media/materials/2020/1/2/notes.pdf'',
      ''owner'' \<mapsto> IntV 1, ''is_open'' \<mapsto> BoolV False, ''deleted'' \<mapsto> BoolV False]"

definition open_material :: row where
  "open_material =
     [''id'' \<mapsto> IntV 11, ''name'' \<mapsto> StrV ''slides'', ''author'' \<mapsto> StrV ''bob'',
      ''type'' \<mapsto> StrV ''ppt'', ''file'' \<mapsto> StrV ''/media/materials/2020/1/3/slides.ppt'',
      ''owner'' \<mapsto> IntV 2, ''is_open'' \<mapsto> BoolV True, ''deleted'' \<mapsto> BoolV False]"

definition example_db :: db where
  "example_db =
     \<lparr>Material = [example_material, open_material],
      MaterialCategory = [],
      MaterialUser = [link 10 1, link 10 2],
      last_id = 11,
      disk = [''/srv/media/materials/2020/1/2/notes.pdf'' \<mapsto> ''abc'']\<rparr>"

definition example_request :: request where
  "example_request =
     \<lparr>query_owner = None, query_category = None, query_type = None, query_text = None,
      req_user = \<lparr>user_id = 1, user_role = 0\<rparr>, match_pk = 10,
      can_read_body = False, multipart_data = Map.empty\<rparr>"

definition moderator_request :: request where
  "moderator_request = example_request\<lparr>req_user := \<lparr>user_id = 2, user_role = 2\<rparr>\<rparr>"

text \<open>The two \<^verbatim>\<open>categories\<close> payloads of the examples, with their double quotes:
  \<^verbatim>\<open>[{"category": 1}]\<close> and \<^verbatim>\<open>[{"category": 1}, {"category": 5}]\<close>.\<close>

definition quoted :: "string \<Rightarrow> string" where
  "quoted s = [CHR 0x22] @ s @ [CHR 0x22]"

definition one_category :: string where
  "one_category = ''[{'' @ quoted ''category'' @ '': 1}]''"

definition two_categories :: string where
  "two_categories =
     ''[{'' @ quoted ''category'' @ '': 1}, {'' @ quoted ''category'' @ '': 5}]''"

text \<open>The collaborators of the examples: \<^verbatim>\<open>json.loads\<close> on the two payloads (any other
  string stands for text that is not JSON), a validation that wants a name and a file
  and copies a client-supplied owner, a schema whose only categories are 1 and 2, a
  first page of twenty rows, and a serialiser that raises nothing.\<close>

fun example_category_id :: "json \<Rightarrow> int" where
  "example_category_id (JObj [(k, JNum n)]) = n"
| "example_category_id j = 0"

definition example_loads :: "string \<Rightarrow> json option" where
  "example_loads s =
     (if s = one_category then Some (JArr [JObj [(''category'', JNum 1)]])
      else if s = two_categories
      then Some (JArr [JObj [(''category'', JNum 1)], JObj [(''category'', JNum 5)]])
      else None)"

definition example_is_valid :: "string \<Rightarrow> bool \<Rightarrow> (string \<rightharpoonup> part) \<Rightarrow> json \<Rightarrow> error + row" where
  "example_is_valid method partial data categories =
     (case (data ''name'', data ''file'', categories) of
        (Some (Text name), Some (FilePart filename content), JArr items) \<Rightarrow>
          Inr ((case data ''owner'' of Some (Text s) \<Rightarrow> [''owner'' \<mapsto> StrV s] | _ \<Rightarrow> Map.empty)
               (''name'' \<mapsto> StrV name, ''file'' \<mapsto> FileV filename content,
                ''categories'' \<mapsto> CategoriesV (map example_category_id items)))
      | _ \<Rightarrow> Inl (ValidationError [(''name'', ''This field is required'')]))"

definition example_constraints :: "db \<Rightarrow> stmt \<Rightarrow> exc option" where
  "example_constraints d s =
     (case s of
        InsertMaterialCategory m c \<Rightarrow>
          if c = 1 \<or> c = 2 then None
          else Some (Exc ''IntegrityError'' [IntArg 1452, StrArg ''foreign key constraint fails''])
      | _ \<Rightarrow> None)"

definition example_env :: env where
  "example_env =
     \<lparr>json_loads = example_loads,
      base_is_valid = example_is_valid,
      generate_path_to_file =
        (\<lambda>root upload_to y m d.
           root @ ''/'' @ (case upload_to of Some u \<Rightarrow> u @ ''/'' | None \<Rightarrow> [])
           @ str_nat y @ ''/'' @ str_nat m @ ''/'' @ str_nat d),
      generate_file_name = (\<lambda>path name. name),
      constraints = example_constraints,
      column_defaults = [''deleted'' \<mapsto> BoolV False, ''is_open'' \<mapsto> BoolV True],
      MEDIA_URL = ''media'',
      MEDIA_ROOT = ''/srv/media'',
      BASE_DIR = ''/srv'',
      MODERATOR = 2,
      now = (2020, 1, 2),
      PagePagination = (\<lambda>req. Inr (0, 20)),
      get_pagination_class = (\<lambda>req. Some (Inr (0, 20))),
      to_json_many = (\<lambda>req d rows. None)\<rparr>"

text \<open>A creation request of user 1 with a name, a file, one or two categories and a
  client-supplied owner.\<close>

definition create_request :: "string \<Rightarrow> string \<Rightarrow> request" where
  "create_request categories client_owner =
     example_request
       \<lparr>can_read_body := True,
        multipart_data :=
          [''name'' \<mapsto> Text ''essay'', ''file'' \<mapsto> FilePart ''essay.txt'' ''xyz'',
           ''categories'' \<mapsto> Text categories, ''owner'' \<mapsto> Text client_owner]\<rparr>"

text \<open>Category 5 does not exist: the second category link of this request violates a
  foreign key.\<close>

definition failing_create :: request where
  "failing_create = create_request two_categories ''99''"


section \<open>Expressions and their rows\<close>

lemma coerce_simps: "coerce None = Null" "coerce (Some e) = e"
  by (simp_all add: coerce_def)

lemma sql_and_True: "(sql_and x y = Some True) = (x = Some True \<and> y = Some True)"
  by (induction x y rule: sql_and.induct) auto

lemma sql_or_True: "(sql_or x y = Some True) = (x = Some True \<or> y = Some True)"
  by (induction x y rule: sql_or.induct) auto

lemma matches_And: "matches lk (And a b) r = (matches lk a r \<and> matches lk b r)"
  by (simp add: matches_def sql_and_True)

lemma matches_Or: "matches lk (Or a b) r = (matches lk a r \<or> matches lk b r)"
  by (simp add: matches_def sql_or_True)

lemma matches_Null: "\<not> matches lk Null r"
  by (simp add: matches_def)

lemma matches_Eq: "matches lk (Eq c v) r = (r c = Some v)"
  by (auto simp: matches_def split: option.splits)




lemma visibility_matches:
  "matches lk visibility r = (r ''is_open'' = Some (BoolV True) \<and> r ''deleted'' = Some (BoolV False))"
  by (simp add: visibility_def matches_And matches_Eq)

section \<open>The loops of the predicate builder\<close>

lemma id_loop_matches:
  "matches lk (coerce (id_loop ms acc)) r =
     (matches lk (coerce acc) r \<or> (\<exists>m\<in>set ms. r ''id'' = Some (IntV m)))"
  by (induction ms arbitrary: acc)
     (auto simp: or_into_def coerce_def matches_Or matches_Eq matches_Null split: option.splits)

lemma id_loop_None: "(id_loop ms acc = None) = (ms = [] \<and> acc = None)"
  by (induction ms arbitrary: acc) (auto simp: or_into_def split: option.splits)

lemma type_loop_matches:
  "matches lk (coerce (type_loop ts acc)) r =
     (matches lk (coerce acc) r \<or> (\<exists>t\<in>set ts. r ''type'' = Some (StrV t)))"
  by (induction ts arbitrary: acc)
     (auto simp: or_into_def coerce_def matches_Or matches_Eq matches_Null split: option.splits)

lemma type_loop_None: "(type_loop ts acc = None) = (ts = [] \<and> acc = None)"
  by (induction ts arbitrary: acc) (auto simp: or_into_def split: option.splits)

lemma category_loop_matches:
  "matches lk (coerce (category_loop d cs acc)) r =
     (matches lk (coerce acc) r \<or>
      (\<exists>c\<in>set cs. \<exists>m\<in>set (category_rows d (as_column c)). r ''id'' = Some (IntV m)))"
proof (induction cs arbitrary: acc)
  case Nil
  then show ?case by simp
next
  case (Cons c cs)
  have "matches lk (coerce (or_into acc (id_loop (category_rows d (as_column c)) None))) r =
        (matches lk (coerce acc) r \<or>
         (\<exists>m\<in>set (category_rows d (as_column c)). r ''id'' = Some (IntV m)))"
    using id_loop_matches[of lk "category_rows d (as_column c)" None r]
    by (cases acc) (auto simp: or_into_def coerce_def matches_Or matches_Null)
  with Cons show ?case by auto
qed

lemma category_loop_None:
  "(category_loop d cs acc = None) =
     (acc = None \<and> (\<forall>c\<in>set cs. category_rows d (as_column c) = []))"
  by (induction cs arbitrary: acc) (auto simp: or_into_def id_loop_None split: option.splits)






section \<open>The builder, step by step\<close>

lemma get_queryset_by_user_steps:
  "get_queryset_by_user req d =
     (case query_owner req of
        None \<Rightarrow> Inr (type_step req (category_step req d (Some visibility)))
      | Some v \<Rightarrow>
          (case as_int v of
             None \<Rightarrow> Inl (Raised (Exc ''ValueError'' [StrArg (raw v)]))
           | Some n \<Rightarrow>
               Inr (owner_step req d (type_step req (category_step req d
                     (if user_id (req_user req) \<noteq> n then Some visibility else None))))))"
  by (simp add: get_queryset_by_user_def py_int_def category_step_def type_step_def
      owner_step_def Let_def split: option.splits)







lemma selects_and_into:
  "selects lk (and_into acc y) r =
     (selects lk acc r \<and> (if acc = None \<and> y = None then True else matches lk (coerce y) r))"
  by (cases acc; cases y) (simp_all add: selects_def and_into_def coerce_simps matches_And)

lemma category_step_selects:
  "qs \<noteq> None \<or> (case query_category req of None \<Rightarrow> True
                 | Some cs \<Rightarrow> \<exists>c\<in>set cs. category_rows d (as_column c) \<noteq> []) \<Longrightarrow>
   selects lk (category_step req d qs) r =
     (selects lk qs r \<and> (case query_category req of None \<Rightarrow> True | Some cs \<Rightarrow> in_category d cs r))"
proof (cases "query_category req")
  case None
  then show ?thesis by (simp add: category_step_def)
next
  case (Some cs)
  assume "qs \<noteq> None \<or> (case query_category req of None \<Rightarrow> True
                 | Some cs \<Rightarrow> \<exists>c\<in>set cs. category_rows d (as_column c) \<noteq> [])"
  with Some have "\<not> (qs = None \<and> category_loop d cs None = None)"
    by (auto simp: category_loop_None)
  with Some show ?thesis
    using category_loop_matches[of lk d cs None r]
    by (auto simp: category_step_def selects_and_into in_category_def coerce_simps matches_Null)
qed

lemma type_step_selects:
  "qs \<noteq> None \<or> (case query_type req of None \<Rightarrow> True | Some ts \<Rightarrow> ts \<noteq> []) \<Longrightarrow>
   selects lk (type_step req qs) r =
     (selects lk qs r \<and> (case query_type req of None \<Rightarrow> True | Some ts \<Rightarrow> has_type ts r))"
proof (cases "query_type req")
  case None
  then show ?thesis by (simp add: type_step_def)
next
  case (Some ts)
  assume "qs \<noteq> None \<or> (case query_type req of None \<Rightarrow> True | Some ts \<Rightarrow> ts \<noteq> [])"
  with Some have "\<not> (qs = None \<and> type_loop ts None = None)"
    by (auto simp: type_loop_None)
  with Some show ?thesis
    using type_loop_matches[of lk ts None r]
    by (auto simp: type_step_def selects_and_into has_type_def coerce_simps matches_Null)
qed

lemma owner_step_selects:
  "query_owner req = Some v \<Longrightarrow> qs \<noteq> None \<or> user_rows d (as_column v) \<noteq> [] \<Longrightarrow>
   selects lk (owner_step req d qs) r = (selects lk qs r \<and> in_collection d (as_column v) r)"
proof -
  assume v: "query_owner req = Some v"
  assume "qs \<noteq> None \<or> user_rows d (as_column v) \<noteq> []"
  then have "\<not> (qs = None \<and> id_loop (user_rows d (as_column v)) None = None)"
    by (auto simp: id_loop_None)
  then show ?thesis
    using id_loop_matches[of lk "user_rows d (as_column v)" None r] v
    by (auto simp: owner_step_def selects_and_into in_collection_def coerce_simps matches_Null)
qed

lemma category_step_not_None: "qs \<noteq> None \<Longrightarrow> category_step req d qs \<noteq> None"
  by (auto simp: category_step_def and_into_def split: option.splits)

lemma type_step_not_None: "qs \<noteq> None \<Longrightarrow> type_step req qs \<noteq> None"
  by (auto simp: type_step_def and_into_def split: option.splits)

text \<open>
  Outside the case that the builder mishandles (no floor, and a supplied dimension
  without a candidate row), the built predicate is the conjunction the spec describes.
\<close>

lemma composition:
  assumes res: "get_queryset_by_user req d = Inr queryset"
    and ok: "floor_applies req \<or> dimensions_nonempty req d"
  shows "selects lk queryset r = spec_predicate req d r"
proof (cases "query_owner req")
  case None
  then have q: "queryset = type_step req (category_step req d (Some visibility))"
    using res by (simp add: get_queryset_by_user_steps)
  have "selects lk queryset r =
     ((visible r \<and> (case query_category req of None \<Rightarrow> True | Some cs \<Rightarrow> in_category d cs r)) \<and>
      (case query_type req of None \<Rightarrow> True | Some ts \<Rightarrow> has_type ts r))"
    unfolding q
    by (subst type_step_selects, simp add: category_step_not_None,
        subst category_step_selects, simp,
        simp add: selects_def visibility_matches visible_def)
  with None show ?thesis
    by (auto simp: spec_predicate_def floor_applies_def)
next
  case (Some v)
  with res obtain n where n: "as_int v = Some n"
    by (cases "as_int v") (auto simp: get_queryset_by_user_steps)
  show ?thesis
  proof (cases "user_id (req_user req) = n")
    case False
    then have q: "queryset =
        owner_step req d (type_step req (category_step req d (Some visibility)))"
      using res Some n by (simp add: get_queryset_by_user_steps)
    have "selects lk queryset r =
      (((visible r \<and> (case query_category req of None \<Rightarrow> True | Some cs \<Rightarrow> in_category d cs r)) \<and>
        (case query_type req of None \<Rightarrow> True | Some ts \<Rightarrow> has_type ts r)) \<and>
       in_collection d (as_column v) r)"
      unfolding q
      by (subst owner_step_selects[OF Some],
          simp add: category_step_not_None type_step_not_None,
          subst type_step_selects, simp add: category_step_not_None,
          subst category_step_selects, simp,
          simp add: selects_def visibility_matches visible_def)
    with False Some n show ?thesis
      by (auto simp: spec_predicate_def floor_applies_def)
  next
    case True
    then have q: "queryset = owner_step req d (type_step req (category_step req d None))"
      using res Some n by (simp add: get_queryset_by_user_steps)
    from True Some n ok have ne: "dimensions_nonempty req d"
      by (simp add: floor_applies_def)
    have "selects lk queryset r =
      (((case query_category req of None \<Rightarrow> True | Some cs \<Rightarrow> in_category d cs r) \<and>
        (case query_type req of None \<Rightarrow> True | Some ts \<Rightarrow> has_type ts r)) \<and>
       in_collection d (as_column v) r)"
      unfolding q
      using ne Some
      by (subst owner_step_selects[OF Some], simp add: dimensions_nonempty_def,
          subst type_step_selects, simp add: dimensions_nonempty_def,
          subst category_step_selects, simp add: dimensions_nonempty_def,
          simp add: selects_def)
    with True Some n show ?thesis
      by (auto simp: spec_predicate_def floor_applies_def)
  qed
qed

text \<open>Under the visibility floor, a category filter without candidate rows selects no
  row: the expression ends in \<^verbatim>\<open>AND NULL\<close>.\<close>

lemma empty_category_under_floor:
  assumes "floor_applies req" and "query_category req = Some cs"
    and "\<forall>c\<in>set cs. category_rows d (as_column c) = []"
    and "get_queryset_by_user req d = Inr queryset"
  shows "\<exists>q. queryset = Some q \<and> select_where lk q rows = []"
proof -
  have "\<not> spec_predicate req d r" for r
    using assms(2,3) by (simp add: spec_predicate_def in_category_def)
  then have no: "\<not> selects lk queryset r" for r
    using composition[OF assms(4), of lk r] assms(1) by simp
  then obtain q where q: "queryset = Some q"
    by (cases queryset) (auto simp: selects_def)
  with no have "\<not> matches lk q r" for r
    by (auto simp: selects_def)
  then have "select_where lk q rows = []"
    by (simp add: select_where_def)
  with q show ?thesis by blast
qed


lemmas example_defs = example_request_def example_db_def example_material_def open_material_def
  link_def moderator_request_def canonical_def

section \<open>The two read handlers\<close>






section \<open>The visibility floor\<close>



lemma matches_Like:
  "matches lk (Like c p) r = (case r c of None \<Rightarrow> False | Some x \<Rightarrow> lk p x)"
  by (simp add: matches_def split: option.splits)

lemmas listing_defs = MaterialsView_get_def search_materials_def respond_def paginate_query_def
  build_query_select_def select_where_def get_queryset_by_user_def py_int_def and_into_def
  or_into_def user_rows_def category_rows_def example_env_def Let_def


section \<open>A category without members\<close>

text \<open>
  Claim C1, evaluated. Category 7 has no junction row. User 1 lists their own materials
  (owner parameter 1) filtered by category 7: the category filter builds \<^verbatim>\<open>None\<close>, the
  accumulator is \<^verbatim>\<open>None\<close> too, and the filter is lost: the predicate is the collection
  of user 1 alone and the listing returns material 10, which is in no category. The same
  filter on another user's collection (owner parameter 2) selects nothing, as lemma
  \<open>empty_category_under_floor\<close> shows in general.
\<close>

theorem empty_category_dropped_for_owner:
  "category_rows example_db 7 = [] \<and>
   get_queryset_by_user
     (example_request\<lparr>query_owner := Some (canonical ''1'' 1),
        query_category := Some [canonical ''7'' 7]\<rparr>) example_db
     = Inr (Some (Eq ''id'' (IntV 10))) \<and>
   MaterialsView_get like_val example_env
     (example_request\<lparr>query_owner := Some (canonical ''1'' 1),
        query_category := Some [canonical ''7'' 7]\<rparr>) example_db
     = Inr (Response 200 (Rows [example_material])) \<and>
   MaterialsView_get like_val example_env
     (example_request\<lparr>query_owner := Some (canonical ''2'' 2),
        query_category := Some [canonical ''7'' 7]\<rparr>) example_db
     = Inr (Response 200 (Rows []))"
  by (simp add: listing_defs example_defs matches_Eq matches_And matches_Null coerce_simps)

text \<open>
  Claim C2, evaluated. With owner 1 (the requesting user), category 7 (no junction row)
  and type \<^verbatim>\<open>pdf\<close> all supplied, the built predicate is the conjunction of the type and
  the owner dimension only. It selects material 10, which the conjunction of the three
  supplied dimensions rejects. Lemma \<open>composition\<close> proves the rule of the claim for every
  other request.
\<close>

theorem supplied_category_not_in_conjunction:
  "get_queryset_by_user
     (example_request\<lparr>query_owner := Some (canonical ''1'' 1),
        query_category := Some [canonical ''7'' 7], query_type := Some [''pdf'']\<rparr>) example_db
     = Inr (Some (And (Eq ''type'' (StrV ''pdf'')) (Eq ''id'' (IntV 10)))) \<and>
   selects like_val (Some (And (Eq ''type'' (StrV ''pdf'')) (Eq ''id'' (IntV 10)))) example_material \<and>
   \<not> spec_predicate
     (example_request\<lparr>query_owner := Some (canonical ''1'' 1),
        query_category := Some [canonical ''7'' 7], query_type := Some [''pdf'']\<rparr>)
     example_db example_material"
  by (simp add: get_queryset_by_user_def selects_def spec_predicate_def in_category_def
      example_defs py_int_def and_into_def or_into_def
      user_rows_def category_rows_def matches_Eq matches_And coerce_simps)

text \<open>
  The same loss in the owner dimension: user 3 has no material in their collection and
  lists their own materials. The builder returns \<^verbatim>\<open>None\<close>, which the listing reads as
  ``match all'': it returns every material, material 10 of user 1 included, which is not
  open.
\<close>

lemma empty_collection_lists_everything:
  "get_queryset_by_user
     (example_request\<lparr>query_owner := Some (canonical ''3'' 3),
        req_user := \<lparr>user_id = 3, user_role = 0\<rparr>\<rparr>)
     example_db = Inr None \<and>
   MaterialsView_get like_val example_env
     (example_request\<lparr>query_owner := Some (canonical ''3'' 3),
        req_user := \<lparr>user_id = 3, user_role = 0\<rparr>\<rparr>)
     example_db = Inr (Response 200 (Rows [example_material, open_material]))"
  by (simp add: listing_defs example_request_def example_db_def link_def canonical_def)

section \<open>The search operation\<close>

text \<open>
  Claim C5, amended. A search request without a text parameter fails with the
  \<^verbatim>\<open>ValidationError\<close> keyed on \<^verbatim>\<open>text\<close>, whatever the storage, the paginator and the
  serialiser are; so it returns no result set.
\<close>

theorem search_requires_text_parameter:
  "query_text req = None \<Longrightarrow>
   search_materials lk E req d
     = Inl (ValidationError [(''text'', ''This query parameters is required'')])"
  by (simp add: search_materials_def)

theorem search_requires_text_parameter_witness:
  "query_text example_request = None \<and>
   search_materials like_val example_env example_request example_db
     = Inl (ValidationError [(''text'', ''This query parameters is required'')])"
  using search_requires_text_parameter[of example_request like_val example_env example_db]
  by (simp add: example_request_def)

text \<open>
  Claim C5 as stated fails for the empty string: the parameter is present, the check
  \<^verbatim>\<open>text is None\<close> passes, the pattern is \<^verbatim>\<open>%%\<close> and the search returns the visible
  materials.
\<close>

theorem search_accepts_empty_text:
  "search_materials like_val example_env (example_request\<lparr>query_text := Some ''''\<rparr>) example_db
     = Inr (Response 200 (Rows [open_material]))"
  by (simp add: listing_defs example_defs matches_And matches_Or matches_Like matches_Eq
      visibility_def like_val_def)


lemma link_eq: "(mu = link m u) = (mu_material mu = m \<and> mu_user mu = u)"
  by (cases mu) (simp add: link_def)

section \<open>The collection\<close>

text \<open>
  Claim C10. Removing from the collection answers 200 in every state, deletes the links
  of the pair (material, requesting user) and no other row, and a second removal changes
  nothing more.
\<close>

theorem remove_from_collection_idempotent:
  "fst (remove_material_from_user_collection req d) = Inr (Response 200 NoBody) \<and>
   snd (remove_material_from_user_collection req d) =
     d\<lparr>MaterialUser :=
         filter (\<lambda>mu. mu \<noteq> link (match_pk req) (user_id (req_user req))) (MaterialUser d)\<rparr> \<and>
   remove_material_from_user_collection req (snd (remove_material_from_user_collection req d)) =
     remove_material_from_user_collection req d"
  by (simp add: remove_material_from_user_collection_def link_eq)

theorem remove_from_collection_idempotent_witness:
  "snd (remove_material_from_user_collection example_request example_db) =
     example_db\<lparr>MaterialUser := [link 10 2]\<rparr> \<and>
   snd (remove_material_from_user_collection example_request
          (example_db\<lparr>MaterialUser := [link 10 2]\<rparr>)) =
     example_db\<lparr>MaterialUser := [link 10 2]\<rparr>"
  using remove_from_collection_idempotent[of example_request example_db]
  by (simp add: remove_material_from_user_collection_def example_request_def example_db_def
      link_def)

text \<open>
  Claim C9. When the pair (material, requesting user) is in the collection table, the
  add request fails with the validation error \<^verbatim>\<open>Material is already added\<close> and changes
  nothing. When the pair is not there, that error is not raised (the other constraints
  of the schema do not report a duplicate entry); when no constraint objects, the pair
  is appended, the answer is 200, and a second add of the same pair fails with that
  validation error.
\<close>

theorem duplicate_add_is_validation_error:
  "(link (match_pk req) (user_id (req_user req)) \<in> set (MaterialUser d) \<longrightarrow>
      add_material_to_user_collection E req d =
        (Inl (ValidationError [(''detail'', ''Material is already added'')]), d)) \<and>
   (link (match_pk req) (user_id (req_user req)) \<notin> set (MaterialUser d) \<and>
    (case constraints E d (InsertMaterialUser (match_pk req) (user_id (req_user req))) of
       None \<Rightarrow> True | Some e \<Rightarrow> \<not> is_duplicate_entry e) \<longrightarrow>
      fst (add_material_to_user_collection E req d) \<noteq>
        Inl (ValidationError [(''detail'', ''Material is already added'')])) \<and>
   (link (match_pk req) (user_id (req_user req)) \<notin> set (MaterialUser d) \<and>
    constraints E d (InsertMaterialUser (match_pk req) (user_id (req_user req))) = None \<longrightarrow>
      add_material_to_user_collection E req d =
        (Inr (Response 200 NoBody),
         d\<lparr>MaterialUser := MaterialUser d @ [link (match_pk req) (user_id (req_user req))]\<rparr>) \<and>
      fst (add_material_to_user_collection E req
             (snd (add_material_to_user_collection E req d))) =
        Inl (ValidationError [(''detail'', ''Material is already added'')]))"
proof (intro conjI impI)
  assume "link (match_pk req) (user_id (req_user req)) \<in> set (MaterialUser d)"
  then show "add_material_to_user_collection E req d =
        (Inl (ValidationError [(''detail'', ''Material is already added'')]), d)"
    by (simp add: add_material_to_user_collection_def insert_material_user_def link_def
        duplicate_entry_def)
next
  assume a: "link (match_pk req) (user_id (req_user req)) \<notin> set (MaterialUser d) \<and>
    (case constraints E d (InsertMaterialUser (match_pk req) (user_id (req_user req))) of
       None \<Rightarrow> True | Some e \<Rightarrow> \<not> is_duplicate_entry e)"
  then show "fst (add_material_to_user_collection E req d) \<noteq>
        Inl (ValidationError [(''detail'', ''Material is already added'')])"
    by (auto simp: add_material_to_user_collection_def insert_material_user_def link_def
        is_duplicate_entry_def split: option.splits list.splits)
next
  assume a: "link (match_pk req) (user_id (req_user req)) \<notin> set (MaterialUser d) \<and>
    constraints E d (InsertMaterialUser (match_pk req) (user_id (req_user req))) = None"
  then show first: "add_material_to_user_collection E req d =
        (Inr (Response 200 NoBody),
         d\<lparr>MaterialUser := MaterialUser d @ [link (match_pk req) (user_id (req_user req))]\<rparr>)"
    by (simp add: add_material_to_user_collection_def insert_material_user_def link_def)
  show "fst (add_material_to_user_collection E req
             (snd (add_material_to_user_collection E req d))) =
        Inl (ValidationError [(''detail'', ''Material is already added'')])"
    unfolding first
    by (simp add: add_material_to_user_collection_def insert_material_user_def link_def
        duplicate_entry_def)
qed


theorem duplicate_add_is_validation_error_witness:
  "link 10 1 \<in> set (MaterialUser example_db) \<and>
   add_material_to_user_collection example_env example_request example_db =
     (Inl (ValidationError [(''detail'', ''Material is already added'')]), example_db) \<and>
   link 11 1 \<notin> set (MaterialUser example_db) \<and>
   constraints example_env example_db (InsertMaterialUser 11 1) = None \<and>
   add_material_to_user_collection example_env (example_request\<lparr>match_pk := 11\<rparr>) example_db =
     (Inr (Response 200 NoBody), example_db\<lparr>MaterialUser := [link 10 1, link 10 2, link 11 1]\<rparr>)"
  using duplicate_add_is_validation_error[of example_request example_db example_env]
    duplicate_add_is_validation_error[of "example_request\<lparr>match_pk := 11\<rparr>" example_db example_env]
  by (simp add: add_material_to_user_collection_def insert_material_user_def duplicate_entry_def
      example_request_def example_db_def example_env_def example_constraints_def link_def)


section \<open>Soft delete\<close>

lemma fetchone_matches:
  "fetchone (select_where lk q rows) = Some r \<Longrightarrow> matches lk q r"
proof -
  assume "fetchone (select_where lk q rows) = Some r"
  then have "r \<in> set (select_where lk q rows)"
    by (cases "select_where lk q rows") (simp_all add: fetchone_def)
  then show ?thesis by (simp add: select_where_def)
qed

text \<open>
  Claim C6, amended. A permitted soft delete (the material exists with a file
  reference, and the requester is its owner or has the moderator role) answers 204,
  sets \<^verbatim>\<open>deleted\<close> on the row of that id and keeps every row, removes the link of the
  pair (material, requesting user) and no other link, and leaves the category links.
\<close>

theorem soft_delete_removes_requesters_link:
  assumes "fetchone (select_where lk (get_queryset req) (Material d)) = Some material"
    and "material ''owner'' = Some (IntV (user_id (req_user req))) \<or>
         MODERATOR E \<le> user_role (req_user req)"
    and "material ''file'' = Some (StrV file)"
  shows "fst (MaterialView_delete lk E req d) = Inr (Response 204 NoBody) \<and>
         Material (snd (MaterialView_delete lk E req d)) =
           map (\<lambda>r. if r ''id'' = Some (IntV (match_pk req)) then r(''deleted'' \<mapsto> BoolV True) else r)
             (Material d) \<and>
         MaterialUser (snd (MaterialView_delete lk E req d)) =
           filter (\<lambda>mu. mu \<noteq> link (match_pk req) (user_id (req_user req))) (MaterialUser d) \<and>
         MaterialCategory (snd (MaterialView_delete lk E req d)) = MaterialCategory d"
proof -
  have id: "material ''id'' = Some (IntV (match_pk req))"
    using fetchone_matches[OF assms(1)] by (simp add: get_queryset_def matches_Eq)
  have perm: "\<not> (material ''owner'' \<noteq> Some (IntV (user_id (req_user req))) \<and>
                user_role (req_user req) < MODERATOR E)"
    using assms(2) by auto
  have upd: "build_query_update lk ''deleted'' (BoolV True) (get_queryset req) (Material d) =
      map (\<lambda>r. if r ''id'' = Some (IntV (match_pk req)) then r(''deleted'' \<mapsto> BoolV True) else r)
        (Material d)"
    by (simp add: build_query_update_def get_queryset_def matches_Eq)
  show ?thesis
    using assms(1,3) perm
    by (cases "str_find file (MEDIA_URL E)")
       (simp_all add: MaterialView_delete_def Let_def upd id link_eq)
qed

lemma example_fetch:
  "fetchone (select_where lk (Eq ''id'' (IntV 10)) (Material example_db)) = Some example_material"
  by (simp add: fetchone_def select_where_def matches_Eq example_db_def example_material_def
      open_material_def)

lemma example_str_find:
  "str_find ''/media/materials/2020/1/2/notes.pdf'' ''media'' = Some 1"
  by simp

theorem soft_delete_removes_requesters_link_witness:
  "fetchone (select_where like_val (get_queryset example_request) (Material example_db))
     = Some example_material \<and>
   example_material ''owner'' = Some (IntV (user_id (req_user example_request))) \<and>
   example_material ''file'' = Some (StrV ''/media/materials/2020/1/2/notes.pdf'') \<and>
   fst (MaterialView_delete like_val example_env example_request example_db)
     = Inr (Response 204 NoBody) \<and>
   MaterialUser (snd (MaterialView_delete like_val example_env example_request example_db))
     = [link 10 2] \<and>
   map (\<lambda>r. r ''deleted'')
     (Material (snd (MaterialView_delete like_val example_env example_request example_db)))
     = [Some (BoolV True), Some (BoolV False)]"
proof -
  have f: "fetchone (select_where like_val (get_queryset example_request) (Material example_db))
     = Some example_material"
    using example_fetch[of like_val] by (simp add: get_queryset_def example_request_def)
  have o: "example_material ''owner'' = Some (IntV (user_id (req_user example_request))) \<or>
         MODERATOR example_env \<le> user_role (req_user example_request)"
    by (simp add: example_material_def example_request_def)
  have fl: "example_material ''file'' = Some (StrV ''/media/materials/2020/1/2/notes.pdf'')"
    by (simp add: example_material_def)
  show ?thesis
    using soft_delete_removes_requesters_link[OF f o fl] f fl
    by (simp add: example_request_def example_db_def example_material_def open_material_def
        link_def)
qed

text \<open>
  Claim C6 as stated fails when a moderator deletes another user's material: the link
  that goes is the moderator's own, and the owner's link stays. Material 10 belongs to
  user 1; user 2, a moderator, deletes it.
\<close>

theorem moderator_delete_keeps_owners_link:
  "example_material ''owner'' = Some (IntV 1) \<and>
   user_id (req_user moderator_request) = 2 \<and>
   MaterialUser example_db = [link 10 1, link 10 2] \<and>
   fst (MaterialView_delete like_val example_env moderator_request example_db)
     = Inr (Response 204 NoBody) \<and>
   MaterialUser (snd (MaterialView_delete like_val example_env moderator_request example_db))
     = [link 10 1]"
  using example_fetch[of like_val] example_str_find
  by (simp add: MaterialView_delete_def get_queryset_def Let_def moderator_request_def
      example_request_def example_env_def)
     (simp add: example_db_def example_material_def link_def)


section \<open>Creation\<close>

lemma save_files_tables:
  "save_files E files vd d = (x, d') \<Longrightarrow>
   Material d' = Material d \<and> MaterialCategory d' = MaterialCategory d \<and>
   MaterialUser d' = MaterialUser d \<and> last_id d' = last_id d"
proof (induction files arbitrary: vd d)
  case Nil
  then show ?case by simp
next
  case (Cons f files)
  obtain file_name upload_to where f: "f = (file_name, upload_to)" by (cases f) auto
  obtain y m dd where n: "now E = (y, m, dd)" by (cases "now E") auto
  show ?case
  proof (cases "vd file_name")
    case None
    with Cons.prems f n show ?thesis by (auto simp: Let_def)
  next
    case (Some v)
    show ?thesis
    proof (cases v)
      case (FileV name content)
      with Cons.prems Some f n obtain vd1 d1 where
        "save_files E files vd1 d1 = (x, d')" "Material d1 = Material d"
        "MaterialCategory d1 = MaterialCategory d" "MaterialUser d1 = MaterialUser d"
        "last_id d1 = last_id d"
        by (auto simp: Let_def)
      with Cons.IH[of vd1 d1] show ?thesis by simp
    qed (use Cons.prems Some f n in \<open>auto simp: Let_def\<close>)
  qed
qed

lemma save_files_keeps:
  "save_files E files vd d = (Inr vd', d') \<Longrightarrow> k \<notin> fst ` set files \<Longrightarrow> k \<noteq> ''extension'' \<Longrightarrow>
   vd' k = vd k"
proof (induction files arbitrary: vd d)
  case Nil
  then show ?case by simp
next
  case (Cons f files)
  obtain file_name upload_to where f: "f = (file_name, upload_to)" by (cases f) auto
  obtain y m dd where n: "now E = (y, m, dd)" by (cases "now E") auto
  from Cons.prems(2) f have k: "k \<noteq> file_name" "k \<notin> fst ` set files" by auto
  show ?case
  proof (cases "vd file_name")
    case None
    with Cons.prems f n show ?thesis by (auto simp: Let_def)
  next
    case (Some v)
    show ?thesis
    proof (cases v)
      case (FileV name content)
      with Cons.prems(1,3) Some f n k(1) obtain vd1 d1 where
        "save_files E files vd1 d1 = (Inr vd', d')" "vd1 k = vd k"
        by (auto simp: Let_def)
      with Cons.IH[of vd1 d1, OF _ k(2) Cons.prems(3)] show ?thesis by simp
    qed (use Cons.prems Some f n in \<open>auto simp: Let_def\<close>)
  qed
qed

lemma is_valid_owner:
  "MaterialSerializer_is_valid E req method partial data categories = Inr vd \<Longrightarrow>
   vd ''owner'' = Some (IntV (user_id (req_user req)))"
  by (auto simp: MaterialSerializer_is_valid_def split: sum.splits)

lemma prepare_tables:
  "prepare E req d = (x, d1) \<Longrightarrow>
   Material d1 = Material d \<and> MaterialCategory d1 = MaterialCategory d \<and>
   MaterialUser d1 = MaterialUser d \<and> last_id d1 = last_id d"
  by (auto simp: prepare_def Let_def split: sum.splits dest: save_files_tables)

lemma prepare_owner:
  "prepare E req d = (Inr vd, d1) \<Longrightarrow> vd ''owner'' = Some (IntV (user_id (req_user req)))"
proof -
  assume p: "prepare E req d = (Inr vd, d1)"
  then obtain data categories vd0 where
    v: "create_validate E req data categories = Inr vd0"
    and s: "save_files E file_fields vd0 d = (Inr vd, d1)"
    by (auto simp: prepare_def Let_def split: sum.splits)
  have "vd ''owner'' = vd0 ''owner''"
    using save_files_keeps[OF s, of "''owner''"] by (simp add: file_fields_def)
  with is_valid_owner[OF v[unfolded create_validate_def]] show ?thesis by simp
qed

lemma insert_categories_Inr:
  "insert_categories E l cs d = Inr d' \<Longrightarrow>
   Material d' = Material d \<and> MaterialUser d' = MaterialUser d \<and>
   MaterialCategory d' = MaterialCategory d @ map (category_link l) cs \<and>
   last_id d' = last_id d"
proof (induction cs arbitrary: d)
  case Nil
  then show ?case by simp
next
  case (Cons c cs)
  from Cons.prems obtain d1 where
    i: "insert_material_category E d l c = Inr d1" and r: "insert_categories E l cs d1 = Inr d'"
    by (auto split: sum.splits)
  from i have "Material d1 = Material d" "MaterialUser d1 = MaterialUser d"
    "MaterialCategory d1 = MaterialCategory d @ [category_link l c]" "last_id d1 = last_id d"
    by (auto simp: insert_material_category_def category_link_def split: option.splits)
  with Cons.IH[OF r] show ?case by simp
qed

lemma transaction_Inr:
  assumes "transaction E req vd d = Inr (l, d')"
  shows "\<exists>cv cs. vd ''categories'' = Some cv \<and> iterate_categories cv = Inr cs \<and>
           l = last_id d + 1 \<and>
           Material d' = Material d @ [(column_defaults E ++ vd(''categories'' := None))(''id'' \<mapsto> IntV l)] \<and>
           MaterialUser d' = MaterialUser d @ [link l (user_id (req_user req))] \<and>
           MaterialCategory d' = MaterialCategory d @ map (category_link l) cs"
proof -
  from assms obtain cv d1 d2 cs where
    cv: "vd ''categories'' = Some cv"
    and m: "insert_material E d (vd(''categories'' := None)) = Inr (l, d1)"
    and u: "insert_material_user E d1 l (user_id (req_user req)) = Inr d2"
    and it: "iterate_categories cv = Inr cs"
    and c: "insert_categories E l cs d2 = Inr d'"
    by (auto simp: transaction_def split: option.splits sum.splits prod.splits)
  from m have m': "l = last_id d + 1"
    "Material d1 = Material d @ [(column_defaults E ++ vd(''categories'' := None))(''id'' \<mapsto> IntV l)]"
    "MaterialUser d1 = MaterialUser d" "MaterialCategory d1 = MaterialCategory d"
    by (auto simp: insert_material_def Let_def split: option.splits)
  from u have u': "Material d2 = Material d1"
    "MaterialUser d2 = MaterialUser d1 @ [link l (user_id (req_user req))]"
    "MaterialCategory d2 = MaterialCategory d1"
    by (auto simp: insert_material_user_def link_def split: option.splits if_splits)
  from insert_categories_Inr[OF c] m' u' cv it show ?thesis by simp
qed

lemma rollback_tables:
  "Material (rollback b d) = Material b" "MaterialUser (rollback b d) = MaterialUser b"
  "MaterialCategory (rollback b d) = MaterialCategory b"
  by (simp_all add: rollback_def)


text \<open>
  Claim C4. Once the request has passed validation and its file is stored, the inserts
  run as one unit. If the unit raises an exception \<open>e\<close> at any point (the material, the
  link to the requesting user, any category link), the response is the object
  \<^verbatim>\<open>{exception: class of e, detail: args of e}\<close> and the three tables are as they were
  before the request. If it raises nothing, the response has status 201 and the tables
  have gained exactly one material, one link to the requesting user and one category link
  per validated category.
\<close>

theorem creation_is_atomic:
  assumes "prepare E req d = (Inr validated_data, d1)"
  shows "(\<forall>e d2. transaction E req validated_data d1 = Inl (e, d2) \<longrightarrow>
            fst (multipart_post lk E req d) =
              Inr (Response 200 (ExceptionDetail (cls e) (args e))) \<and>
            Material (snd (multipart_post lk E req d)) = Material d \<and>
            MaterialUser (snd (multipart_post lk E req d)) = MaterialUser d \<and>
            MaterialCategory (snd (multipart_post lk E req d)) = MaterialCategory d) \<and>
         (\<forall>lastrowid d2. transaction E req validated_data d1 = Inr (lastrowid, d2) \<longrightarrow>
            created (fst (multipart_post lk E req d)) \<and>
            (\<exists>r cv cs. validated_data ''categories'' = Some cv \<and> iterate_categories cv = Inr cs \<and>
               Material (snd (multipart_post lk E req d)) = Material d @ [r] \<and>
               MaterialUser (snd (multipart_post lk E req d)) =
                 MaterialUser d @ [link lastrowid (user_id (req_user req))] \<and>
               MaterialCategory (snd (multipart_post lk E req d)) =
                 MaterialCategory d @ map (category_link lastrowid) cs))"
proof (intro conjI allI impI)
  fix e d2
  assume t: "transaction E req validated_data d1 = Inl (e, d2)"
  have mp: "multipart_post lk E req d =
      (Inr (Response 200 (ExceptionDetail (cls e) (args e))), rollback d1 d2)"
    using assms t by (simp add: multipart_post_def)
  show "fst (multipart_post lk E req d) = Inr (Response 200 (ExceptionDetail (cls e) (args e)))"
    by (simp add: mp)
  show "Material (snd (multipart_post lk E req d)) = Material d"
    using prepare_tables[OF assms] by (simp add: mp rollback_tables)
  show "MaterialUser (snd (multipart_post lk E req d)) = MaterialUser d"
    using prepare_tables[OF assms] by (simp add: mp rollback_tables)
  show "MaterialCategory (snd (multipart_post lk E req d)) = MaterialCategory d"
    using prepare_tables[OF assms] by (simp add: mp rollback_tables)
next
  fix lastrowid d2
  assume t: "transaction E req validated_data d1 = Inr (lastrowid, d2)"
  have mp: "multipart_post lk E req d =
      (Inr (Response 201
         (Rows (build_query_select lk (Some (Eq ''id'' (IntV lastrowid))) (Material d2)))), d2)"
    using assms t by (simp add: multipart_post_def)
  show "created (fst (multipart_post lk E req d))"
    by (simp add: mp created_def)
  from transaction_Inr[OF t] prepare_tables[OF assms]
  show "\<exists>r cv cs. validated_data ''categories'' = Some cv \<and> iterate_categories cv = Inr cs \<and>
               Material (snd (multipart_post lk E req d)) = Material d @ [r] \<and>
               MaterialUser (snd (multipart_post lk E req d)) =
                 MaterialUser d @ [link lastrowid (user_id (req_user req))] \<and>
               MaterialCategory (snd (multipart_post lk E req d)) =
                 MaterialCategory d @ map (category_link lastrowid) cs"
    by (auto simp: mp)
qed

text \<open>
  Claim C8. Whatever the request data hold, a validation that succeeds leaves the
  requesting user's id under \<^verbatim>\<open>owner\<close>; and when a creation succeeds, the row it stores
  has that owner, so two successful creations by the same user, on the same storage,
  store the same owner.
\<close>

theorem stored_owner_is_requester:
  "(\<forall>vd. MaterialSerializer_is_valid E req method partial data categories = Inr vd \<longrightarrow>
      vd ''owner'' = Some (IntV (user_id (req_user req)))) \<and>
   (created (fst (multipart_post lk E req d)) \<and> created (fst (multipart_post lk E req' d)) \<and>
    req_user req' = req_user req \<longrightarrow>
      (\<exists>r r'. Material (snd (multipart_post lk E req d)) = Material d @ [r] \<and>
               Material (snd (multipart_post lk E req' d)) = Material d @ [r'] \<and>
               r ''owner'' = Some (IntV (user_id (req_user req))) \<and>
               r' ''owner'' = r ''owner''))"
proof (intro conjI allI impI)
  fix vd
  assume "MaterialSerializer_is_valid E req method partial data categories = Inr vd"
  then show "vd ''owner'' = Some (IntV (user_id (req_user req)))"
    by (rule is_valid_owner)
next
  assume a: "created (fst (multipart_post lk E req d)) \<and>
    created (fst (multipart_post lk E req' d)) \<and> req_user req' = req_user req"
  have one: "\<exists>r. Material (snd (multipart_post lk E q d)) = Material d @ [r] \<and>
               r ''owner'' = Some (IntV (user_id (req_user q)))"
    if c: "created (fst (multipart_post lk E q d))" for q
  proof -
    from c obtain vd d1 l d2 where
      p: "prepare E q d = (Inr vd, d1)" and t: "transaction E q vd d1 = Inr (l, d2)"
      and mp: "snd (multipart_post lk E q d) = d2"
      by (auto simp: multipart_post_def created_def split: prod.splits sum.splits)
    from transaction_Inr[OF t] prepare_tables[OF p]
    have "Material d2 = Material d @ [(column_defaults E ++ vd(''categories'' := None))(''id'' \<mapsto> IntV l)]"
      by auto
    moreover have "((column_defaults E ++ vd(''categories'' := None))(''id'' \<mapsto> IntV l)) ''owner''
        = Some (IntV (user_id (req_user q)))"
      using prepare_owner[OF p] by (simp add: map_add_def)
    ultimately show ?thesis using mp by auto
  qed
  from one[of req] one[of req'] a
  show "\<exists>r r'. Material (snd (multipart_post lk E req d)) = Material d @ [r] \<and>
               Material (snd (multipart_post lk E req' d)) = Material d @ [r'] \<and>
               r ''owner'' = Some (IntV (user_id (req_user req))) \<and>
               r' ''owner'' = r ''owner''"
    by auto
qed


lemma payload_simps:
  "one_category \<noteq> []" "two_categories \<noteq> []" "two_categories \<noteq> one_category"
  "''[{category'' \<noteq> one_category" "''[{category'' \<noteq> two_categories"
  by (simp_all add: one_category_def two_categories_def quoted_def)

lemma prepare_example:
  "prepare example_env (create_request cats client_owner) example_db = (x, d1) \<Longrightarrow>
   example_loads cats = Some (JArr items) \<Longrightarrow> cats \<noteq> [] \<Longrightarrow>
   (\<exists>vd. x = Inr vd \<and> vd ''categories'' = Some (CategoriesV (map example_category_id items)) \<and>
      vd ''owner'' = Some (IntV 1)) \<and>
   Material d1 = Material example_db \<and> MaterialUser d1 = MaterialUser example_db \<and>
   MaterialCategory d1 = MaterialCategory example_db \<and> last_id d1 = last_id example_db"
  by (auto simp: prepare_def loads_categories_def create_validate_def
      MaterialSerializer_is_valid_def file_fields_def Let_def create_request_def example_request_def
      example_env_def example_is_valid_def split: option.splits)


lemma transaction_example_fails:
  assumes "vd ''categories'' = Some (CategoriesV [1, 5])"
    and "MaterialUser d1 = [link 10 1, link 10 2]" and "MaterialCategory d1 = []"
    and "last_id d1 = 11"
  shows "\<exists>d2. transaction example_env failing_create vd d1 =
           Inl (Exc ''IntegrityError'' [IntArg 1452, StrArg ''foreign key constraint fails''], d2) \<and>
         MaterialUser d2 = [link 10 1, link 10 2, link 12 1] \<and>
         MaterialCategory d2 = [category_link 12 1]"
  using assms
  by (simp add: transaction_def insert_material_def insert_material_user_def
      insert_material_category_def iterate_categories_def example_constraints_def
      link_def category_link_def Let_def example_env_def failing_create_def create_request_def
      example_request_def)

theorem creation_is_atomic_witness:
  "prepare example_env failing_create example_db =
     (Inr (projr (fst (prepare example_env failing_create example_db))),
      snd (prepare example_env failing_create example_db)) \<and>
   (\<exists>d2. transaction example_env failing_create
            (projr (fst (prepare example_env failing_create example_db)))
            (snd (prepare example_env failing_create example_db)) =
          Inl (Exc ''IntegrityError'' [IntArg 1452, StrArg ''foreign key constraint fails''], d2) \<and>
        MaterialUser d2 = [link 10 1, link 10 2, link 12 1] \<and>
        MaterialCategory d2 = [category_link 12 1]) \<and>
   fst (multipart_post like_val example_env failing_create example_db) =
     Inr (Response 200 (ExceptionDetail ''IntegrityError''
            [IntArg 1452, StrArg ''foreign key constraint fails''])) \<and>
   Material (snd (multipart_post like_val example_env failing_create example_db)) =
     [example_material, open_material] \<and>
   MaterialUser (snd (multipart_post like_val example_env failing_create example_db)) =
     [link 10 1, link 10 2] \<and>
   MaterialCategory (snd (multipart_post like_val example_env failing_create example_db)) = []"
proof -
  let ?p = "prepare example_env failing_create example_db"
  obtain x d1 where xd: "?p = (x, d1)" by (cases ?p) auto
  have l: "example_loads two_categories =
      Some (JArr [JObj [(''category'', JNum 1)], JObj [(''category'', JNum 5)]])"
    by (simp add: example_loads_def payload_simps)
  from prepare_example[OF xd[unfolded failing_create_def] l payload_simps(2)]
  obtain vd where vd: "x = Inr vd" "vd ''categories'' = Some (CategoriesV [1, 5])"
    and tb: "MaterialUser d1 = [link 10 1, link 10 2]" "MaterialCategory d1 = []" "last_id d1 = 11"
    by (auto simp: example_db_def)
  have p: "?p = (Inr (projr (fst ?p)), snd ?p)"
    by (simp add: xd vd)
  from transaction_example_fails[of vd d1, OF vd(2) tb] obtain d2 where
    t: "transaction example_env failing_create (projr (fst ?p)) (snd ?p) =
          Inl (Exc ''IntegrityError'' [IntArg 1452, StrArg ''foreign key constraint fails''], d2)"
    and d2: "MaterialUser d2 = [link 10 1, link 10 2, link 12 1]"
      "MaterialCategory d2 = [category_link 12 1]"
    by (auto simp: xd vd)
  from creation_is_atomic[OF p, of like_val] t
  have "fst (multipart_post like_val example_env failing_create example_db) =
     Inr (Response 200 (ExceptionDetail ''IntegrityError''
            [IntArg 1452, StrArg ''foreign key constraint fails''])) \<and>
   Material (snd (multipart_post like_val example_env failing_create example_db)) =
     Material example_db \<and>
   MaterialUser (snd (multipart_post like_val example_env failing_create example_db)) =
     MaterialUser example_db \<and>
   MaterialCategory (snd (multipart_post like_val example_env failing_create example_db)) =
     MaterialCategory example_db"
    by auto
  with p t d2 show ?thesis
    by (auto simp: example_db_def)
qed

lemma transaction_example_succeeds:
  assumes "vd ''categories'' = Some (CategoriesV [1])"
    and "MaterialUser d1 = [link 10 1, link 10 2]" and "last_id d1 = 11"
  shows "\<exists>d2. transaction example_env (create_request cats client_owner) vd d1 = Inr (12, d2)"
  using assms
  by (simp add: transaction_def insert_material_def insert_material_user_def
      insert_material_category_def iterate_categories_def example_constraints_def
      link_def Let_def example_env_def create_request_def example_request_def)

lemma create_example_created:
  "created (fst (multipart_post like_val example_env
      (create_request one_category client_owner) example_db))"
proof -
  let ?r = "create_request one_category client_owner"
  let ?p = "prepare example_env ?r example_db"
  obtain x d1 where xd: "?p = (x, d1)" by (cases ?p) auto
  have l: "example_loads one_category = Some (JArr [JObj [(''category'', JNum 1)]])"
    by (simp add: example_loads_def)
  from prepare_example[OF xd l payload_simps(1)]
  obtain vd where vd: "x = Inr vd" "vd ''categories'' = Some (CategoriesV [1])"
    and tb: "MaterialUser d1 = [link 10 1, link 10 2]" "last_id d1 = 11"
    by (auto simp: example_db_def)
  from transaction_example_succeeds[of vd d1 one_category client_owner, OF vd(2) tb]
  obtain d2 where "transaction example_env ?r vd d1 = Inr (12, d2)" by auto
  then show ?thesis
    by (simp add: multipart_post_def xd vd created_def)
qed

theorem stored_owner_is_requester_witness:
  "(\<exists>vd. MaterialSerializer_is_valid example_env (create_request one_category ''99'')
           ''create'' False
           (multipart_data (create_request one_category ''99''))
           (JArr [JObj [(''category'', JNum 1)]]) = Inr vd \<and>
         vd ''owner'' = Some (IntV 1)) \<and>
   created (fst (multipart_post like_val example_env
      (create_request one_category ''99'') example_db)) \<and>
   created (fst (multipart_post like_val example_env
      (create_request one_category ''42'') example_db)) \<and>
   req_user (create_request one_category ''42'') =
     req_user (create_request one_category ''99'') \<and>
   multipart_data (create_request one_category ''99'') ''owner'' = Some (Text ''99'') \<and>
   multipart_data (create_request one_category ''42'') ''owner'' = Some (Text ''42'') \<and>
   last (Material (snd (multipart_post like_val example_env
      (create_request one_category ''99'') example_db))) ''owner'' = Some (IntV 1) \<and>
   last (Material (snd (multipart_post like_val example_env
      (create_request one_category ''42'') example_db))) ''owner'' = Some (IntV 1)"
proof -
  let ?r = "create_request one_category ''99''"
  let ?r' = "create_request one_category ''42''"
  let ?v = "MaterialSerializer_is_valid example_env ?r ''create'' False (multipart_data ?r)
             (JArr [JObj [(''category'', JNum 1)]])"
  note t = stored_owner_is_requester[of example_env ?r "''create''" False "multipart_data ?r"
      "JArr [JObj [(''category'', JNum 1)]]" like_val example_db ?r']
  have u: "req_user ?r' = req_user ?r"
    by (simp add: create_request_def)
  have v: "\<exists>vd. ?v = Inr vd"
    by (simp add: MaterialSerializer_is_valid_def create_request_def example_request_def
        example_env_def example_is_valid_def)
  then obtain vd where vd: "?v = Inr vd" by blast
  with t have o: "vd ''owner'' = Some (IntV (user_id (req_user ?r)))" by blast
  from t create_example_created[of "''99''"] create_example_created[of "''42''"] u
  obtain r r' where
    "Material (snd (multipart_post like_val example_env ?r example_db)) = Material example_db @ [r]"
    "Material (snd (multipart_post like_val example_env ?r' example_db)) = Material example_db @ [r']"
    "r ''owner'' = Some (IntV (user_id (req_user ?r)))" "r' ''owner'' = r ''owner''"
    by blast
  with vd o u create_example_created[of "''99''"] create_example_created[of "''42''"]
  show ?thesis
    by (simp add: create_request_def example_request_def)
qed

text \<open>
  Claim C7, evaluated. A creation request without a readable body has the data \<^verbatim>\<open>{}\<close>,
  and a body without a \<^verbatim>\<open>categories\<close> part has no such key either: reading
  \<^verbatim>\<open>data['categories']\<close> raises \<^verbatim>\<open>KeyError\<close>, which nothing catches, and no field-keyed
  validation error is produced. A \<^verbatim>\<open>categories\<close> part that is not JSON does get the
  field-keyed error.
\<close>

theorem missing_categories_raises_key_error:
  "multipart_post like_val example_env example_request example_db =
     (Inl (Raised (Exc ''KeyError'' [StrArg ''categories''])), example_db) \<and>
   multipart_post like_val example_env
     (example_request\<lparr>can_read_body := True,
        multipart_data := [''name'' \<mapsto> Text ''essay'', ''file'' \<mapsto> FilePart ''essay.txt'' ''xyz'']\<rparr>)
     example_db =
     (Inl (Raised (Exc ''KeyError'' [StrArg ''categories''])), example_db) \<and>
   multipart_post like_val example_env (create_request ''[{category'' ''99'') example_db =
     (Inl (ValidationError [(''categories'', ''JSON decode error'')]), example_db)"
  by (simp add: multipart_post_def prepare_def loads_categories_def example_request_def
      create_request_def example_env_def example_loads_def payload_simps)

end
